theory Spec2Isabelle
  imports Complex_Main
begin

section \<open>JavaScript numbers\<close>

text \<open>
  The repository is JavaScript, whose numbers are IEEE 754 doubles. In this development a
  finite number is a \<^typ>\<open>real\<close>; overflow to infinity is not modelled, and zero carries no
  sign. The operations and their order are those of the source. In the Metrics Engine, whose
  guards test a computed quantity against 0, the rounding of every operation is explicit
  (see there). Elsewhere the arithmetic is exact, and the results stated are those that do not
  depend on the rounding: they rest on comparisons the code itself makes and on expressions
  the code itself computes, or they leave a margin far above the rounding error. Where the
  source can divide by zero (the divisor
  \<^verbatim>\<open>n - 1\<close> of the sample moments) the value is a \<open>jsnum\<close>, which adds
  \<^verbatim>\<open>Infinity\<close>, \<^verbatim>\<open>-Infinity\<close> and \<^verbatim>\<open>NaN\<close> with the arithmetic of the language:
  \<^verbatim>\<open>0/0\<close> is \<^verbatim>\<open>NaN\<close>, \<^verbatim>\<open>x/0\<close> is an infinity of the sign of \<^verbatim>\<open>x\<close>, every
  comparison with \<^verbatim>\<open>NaN\<close> is false.
\<close>

datatype jsnum = Fin real | PosInf | NegInf | NaN

fun js_neg :: "jsnum \<Rightarrow> jsnum" where
  "js_neg (Fin a) = Fin (- a)"
| "js_neg PosInf = NegInf"
| "js_neg NegInf = PosInf"
| "js_neg NaN = NaN"

fun js_add :: "jsnum \<Rightarrow> jsnum \<Rightarrow> jsnum" where
  "js_add (Fin a) (Fin b) = Fin (a + b)"
| "js_add NaN y = NaN"
| "js_add x NaN = NaN"
| "js_add PosInf NegInf = NaN"
| "js_add NegInf PosInf = NaN"
| "js_add PosInf y = PosInf"
| "js_add NegInf y = NegInf"
| "js_add x PosInf = PosInf"
| "js_add x NegInf = NegInf"

definition js_sub :: "jsnum \<Rightarrow> jsnum \<Rightarrow> jsnum" where
  "js_sub x y = js_add x (js_neg y)"

fun js_sign :: "jsnum \<Rightarrow> real" where
  "js_sign (Fin a) = sgn a"
| "js_sign PosInf = 1"
| "js_sign NegInf = - 1"
| "js_sign NaN = 0"

definition js_inf :: "real \<Rightarrow> jsnum" where
  "js_inf s = (if s > 0 then PosInf else if s < 0 then NegInf else NaN)"

fun js_mul :: "jsnum \<Rightarrow> jsnum \<Rightarrow> jsnum" where
  "js_mul (Fin a) (Fin b) = Fin (a * b)"
| "js_mul NaN y = NaN"
| "js_mul x NaN = NaN"
| "js_mul x y = js_inf (js_sign x * js_sign y)"

fun js_div :: "jsnum \<Rightarrow> jsnum \<Rightarrow> jsnum" where
  "js_div (Fin a) (Fin b) = (if b \<noteq> 0 then Fin (a / b) else js_inf (sgn a))"
| "js_div NaN y = NaN"
| "js_div x NaN = NaN"
| "js_div (Fin a) y = Fin 0"
| "js_div x (Fin b) = js_inf (js_sign x * (if b < 0 then - 1 else 1))"
| "js_div x y = NaN"

text \<open>
  \<^verbatim>\<open>Math.sqrt\<close> and \<^verbatim>\<open>Math.pow\<close>. A negative base with a fractional exponent gives
  \<^verbatim>\<open>NaN\<close>; \<^verbatim>\<open>Math.pow(x, 0)\<close> is 1 for every \<^verbatim>\<open>x\<close>.
\<close>

fun js_sqrt :: "jsnum \<Rightarrow> jsnum" where
  "js_sqrt (Fin a) = (if a < 0 then NaN else Fin (sqrt a))"
| "js_sqrt PosInf = PosInf"
| "js_sqrt NegInf = NaN"
| "js_sqrt NaN = NaN"

fun js_pow :: "jsnum \<Rightarrow> real \<Rightarrow> jsnum" where
  "js_pow (Fin a) e =
     (if e = 0 then Fin 1
      else if a > 0 then Fin (a powr e)
      else if a = 0 then (if e > 0 then Fin 0 else PosInf)
      else if e \<in> \<int> then Fin ((if even \<lfloor>e\<rfloor> then 1 else - 1) * (\<bar>a\<bar> powr e))
      else NaN)"
| "js_pow PosInf e = (if e = 0 then Fin 1 else if e > 0 then PosInf else Fin 0)"
| "js_pow NegInf e =
     (if e = 0 then Fin 1
      else if e > 0 then (if e \<in> \<int> \<and> odd \<lfloor>e\<rfloor> then NegInf else PosInf)
      else Fin 0)"
| "js_pow NaN e = (if e = 0 then Fin 1 else NaN)"

text \<open>
  \<^verbatim>\<open>x > y\<close> and \<^verbatim>\<open>x <= y\<close> on numbers.
\<close>

fun js_gt :: "jsnum \<Rightarrow> jsnum \<Rightarrow> bool" where
  "js_gt NaN y = False"
| "js_gt x NaN = False"
| "js_gt (Fin a) (Fin b) = (a > b)"
| "js_gt PosInf y = (y \<noteq> PosInf)"
| "js_gt x NegInf = (x \<noteq> NegInf)"
| "js_gt x y = False"

definition js_le :: "jsnum \<Rightarrow> jsnum \<Rightarrow> bool" where
  "js_le x y = (x \<noteq> NaN \<and> y \<noteq> NaN \<and> \<not> js_gt x y)"

text \<open>
  \<^verbatim>\<open>parseFloat(x.toFixed(1))\<close>: the number denoted by the decimal string with one
  fractional digit that \<^verbatim>\<open>toFixed(1)\<close> returns. The language rounds the magnitude to
  the nearest tenth, the larger one on a tie, and puts the sign back.
\<close>

definition toFixed1 :: "real \<Rightarrow> real" where
  "toFixed1 x =
     (if x < 0 then - (of_int \<lfloor>(- x) * 10 + 1 / 2\<rfloor> / 10)
      else of_int \<lfloor>x * 10 + 1 / 2\<rfloor> / 10)"

section \<open>Frequency Detector\<close>

text \<open>
  \<^verbatim>\<open>detectFrequency(returns, dates = null)\<close> of \<^verbatim>\<open>js/portfolio-metrics.js\<close>.
  \<^verbatim>\<open>new Date(label)\<close> is a builtin of the language: the parser is a parameter, which
  gives the time stamp in milliseconds of a label, or \<open>None\<close> for an invalid date. The
  difference of two dates one of which is invalid is \<^verbatim>\<open>NaN\<close>. Nothing in the
  \<^verbatim>\<open>try\<close> block throws, so each of its five \<^verbatim>\<open>return\<close>s leaves the function and the
  length heuristic below it runs only when fewer than two labels are given.
\<close>

record FrequencyInfo =
  frequency_periods :: nat
  frequency_name :: string
  frequency_factor :: real

type_synonym dateParser = "string \<Rightarrow> real option"

definition detectFrequency :: "dateParser \<Rightarrow> real list \<Rightarrow> string list option \<Rightarrow> FrequencyInfo" where
  "detectFrequency parseDate returns dates =
     (let dataLength = length returns;
          heuristic =
            (if dataLength > 1000 then
               \<lparr> frequency_periods = 252, frequency_name = ''daily'', frequency_factor = sqrt 252 \<rparr>
             else if dataLength > 200 then
               \<lparr> frequency_periods = 52, frequency_name = ''weekly'', frequency_factor = sqrt 52 \<rparr>
             else if dataLength > 50 then
               \<lparr> frequency_periods = 12, frequency_name = ''monthly'', frequency_factor = sqrt 12 \<rparr>
             else if dataLength > 10 then
               \<lparr> frequency_periods = 4, frequency_name = ''quarterly'', frequency_factor = sqrt 4 \<rparr>
             else
               \<lparr> frequency_periods = 1, frequency_name = ''annual'', frequency_factor = 1 \<rparr>)
      in
      case dates of
        None \<Rightarrow> heuristic
      | Some ds \<Rightarrow>
          if length ds \<ge> 2 then
            (let date1 = parseDate (ds ! 0);
                 date2 = parseDate (ds ! 1);
                 daysDiff =
                   (case (date1, date2) of
                      (Some t1, Some t2) \<Rightarrow> Fin \<bar>(t2 - t1) / (1000 * 60 * 60 * 24)\<bar>
                    | _ \<Rightarrow> NaN)
             in
             if js_le daysDiff (Fin 1.5) then
               \<lparr> frequency_periods = 252, frequency_name = ''daily'', frequency_factor = sqrt 252 \<rparr>
             else if js_le daysDiff (Fin 8) then
               \<lparr> frequency_periods = 52, frequency_name = ''weekly'', frequency_factor = sqrt 52 \<rparr>
             else if js_le daysDiff (Fin 35) then
               \<lparr> frequency_periods = 12, frequency_name = ''monthly'', frequency_factor = sqrt 12 \<rparr>
             else if js_le daysDiff (Fin 100) then
               \<lparr> frequency_periods = 4, frequency_name = ''quarterly'', frequency_factor = sqrt 4 \<rparr>
             else
               \<lparr> frequency_periods = 1, frequency_name = ''annual'', frequency_factor = 1 \<rparr>)
          else heuristic)"

section \<open>Metrics Engine\<close>

text \<open>
  \<^verbatim>\<open>calculateMetricsForReturns(returns, riskFreeRate = 0.02, dates = null)\<close> and
  \<^verbatim>\<open>calculateAdditionalMetrics(returns, benchmarkReturns = null, dates = null)\<close> of
  \<^verbatim>\<open>js/portfolio-metrics.js\<close>. The record of the result is the shape the optimizer reads
  from its callback as well; it is polymorphic in the type of the numeric fields.

  The guards of these two functions compare a computed deviation or variance with 0, and
  whether such a quantity is 0 depends on the rounding of the doubles: the sum of three
  times 0.05 is not the double nearest to 0.15, so the computed mean of a constant series
  need not be its value, and its computed variance need not be 0. The engine is therefore
  modelled with its rounding. The parameter \<open>fl\<close> maps the exact result of an operation to
  the number the operation returns. Each arithmetic operation of the source,
  \<^verbatim>\<open>Math.sqrt\<close> and \<^verbatim>\<open>Math.pow\<close> included, is the exact operation followed by \<open>fl\<close>,
  and a decimal literal that is not a double (0.02, 0.05, 0.01) is read through \<open>fl\<close>.
  Counts and indices are integers, on which the operations are exact; the factor of the
  Frequency Detector, a square root, is rounded where it is read. With \<open>\<lambda>x. x\<close> for
  \<open>fl\<close> the arithmetic is exact. Overflow to infinity is not modelled. The comparator
  \<^verbatim>\<open>a - b\<close> of the sort has the sign of the exact difference.

  \<open>sampleVariance\<close> is the expression both functions compute for \<^verbatim>\<open>variance\<close>: the sum
  of squared deviations over \<^verbatim>\<open>length - 1\<close>.
\<close>

record 'n MetricsResult =
  metrics_cagr :: 'n
  metrics_volatility :: 'n
  metrics_sharpe :: 'n
  metrics_sortino :: 'n
  metrics_cvar :: 'n
  metrics_maxDrawdown :: 'n
  metrics_frequency :: "string option"
  metrics_periodsPerYear :: "nat option"

type_synonym rounding = "real \<Rightarrow> real"

definition js_fl :: "rounding \<Rightarrow> jsnum \<Rightarrow> jsnum" where
  "js_fl fl x = (case x of Fin a \<Rightarrow> Fin (fl a) | PosInf \<Rightarrow> PosInf | NegInf \<Rightarrow> NegInf | NaN \<Rightarrow> NaN)"

definition sampleVariance :: "rounding \<Rightarrow> real list \<Rightarrow> real \<Rightarrow> jsnum" where
  "sampleVariance fl monthlyReturns meanReturn =
     js_fl fl
       (js_div (Fin (foldl (\<lambda>acc ret. fl (acc + fl (fl (ret - meanReturn) ^ 2))) 0 monthlyReturns))
               (Fin (real (length monthlyReturns) - 1)))"

definition maxDrawdownLoop :: "rounding \<Rightarrow> real list \<Rightarrow> real" where
  "maxDrawdownLoop fl monthlyReturns =
     (case foldl (\<lambda>(peak, maxDrawdown, cumulative) ret.
                    (let cumulative' = fl (cumulative * fl (1 + ret));
                         peak' = (if cumulative' > peak then cumulative' else peak);
                         drawdown = fl (fl (peak' - cumulative') / peak');
                         maxDrawdown' = (if drawdown > maxDrawdown then drawdown else maxDrawdown)
                     in (peak', maxDrawdown', cumulative')))
                 (1, 0, 1) monthlyReturns of
        (peak, maxDrawdown, cumulative) \<Rightarrow> maxDrawdown)"

definition calculateMetricsForReturns ::
  "rounding \<Rightarrow> dateParser \<Rightarrow> real list \<Rightarrow> real option \<Rightarrow> string list option
     \<Rightarrow> jsnum MetricsResult" where
  "calculateMetricsForReturns fl parseDate returns riskFreeRateArg dates =
     (if length returns = 0 then
        \<lparr> metrics_cagr = Fin 0, metrics_volatility = Fin 0, metrics_sharpe = Fin 0,
          metrics_sortino = Fin 0, metrics_cvar = Fin 0, metrics_maxDrawdown = Fin 0,
          metrics_frequency = None, metrics_periodsPerYear = None \<rparr>
      else
        (let riskFreeRate = (case riskFreeRateArg of None \<Rightarrow> fl 0.02 | Some r \<Rightarrow> r);
             frequency = detectFrequency parseDate returns dates;
             periodsPerYear = real (frequency_periods frequency);
             volatilityFactor = fl (frequency_factor frequency);
             monthlyReturns = map (\<lambda>r. fl (r / 100)) returns;
             meanReturn = fl (foldl (\<lambda>a b. fl (a + b)) 0 monthlyReturns
                                / real (length monthlyReturns));
             totalReturn = foldl (\<lambda>acc ret. fl (acc * fl (1 + ret))) 1 monthlyReturns;
             years = fl (real (length returns) / periodsPerYear);
             cagr = (if years > 0
                     then js_fl fl (js_mul
                            (js_fl fl (js_sub (js_fl fl (js_pow (Fin totalReturn) (fl (1 / years))))
                                              (Fin 1)))
                            (Fin 100))
                     else Fin 0);
             variance = sampleVariance fl monthlyReturns meanReturn;
             volatility = js_fl fl (js_mul
                            (js_fl fl (js_mul (js_fl fl (js_sqrt variance)) (Fin volatilityFactor)))
                            (Fin 100));
             periodicRiskFreeRate = fl (riskFreeRate / periodsPerYear);
             excessReturns = map (\<lambda>ret. fl (ret - periodicRiskFreeRate)) monthlyReturns;
             meanExcessReturn = fl (foldl (\<lambda>a b. fl (a + b)) 0 excessReturns
                                      / real (length excessReturns));
             returnsStdDev = js_fl fl (js_sqrt variance);
             sharpe = (if js_gt returnsStdDev (Fin 0)
                       then js_fl fl (js_div (Fin (fl (meanExcessReturn * periodsPerYear)))
                                             (js_fl fl (js_mul returnsStdDev (Fin volatilityFactor))))
                       else Fin 0);
             downsideReturns = filter (\<lambda>ret. ret < periodicRiskFreeRate) monthlyReturns;
             downsideDeviation =
               (if length downsideReturns > 0 then
                  (let downsideSquaredDeviations =
                         map (\<lambda>ret. fl (fl (ret - periodicRiskFreeRate) ^ 2)) downsideReturns;
                       downsideVariance =
                         fl (foldl (\<lambda>a b. fl (a + b)) 0 downsideSquaredDeviations
                               / real (length downsideReturns))
                   in fl (fl (sqrt downsideVariance) * volatilityFactor))
                else 0);
             sortino = (if downsideDeviation > 0
                        then Fin (fl (fl (meanExcessReturn * periodsPerYear) / downsideDeviation))
                        else Fin 0);
             sortedReturns = sort monthlyReturns;
             cvarIndex = nat \<lfloor>fl (real (length sortedReturns) * fl 0.05)\<rfloor>;
             cvar = (if cvarIndex > 0
                     then fl (fl (foldl (\<lambda>a b. fl (a + b)) 0 (take cvarIndex sortedReturns)
                                    / real cvarIndex) * 100)
                     else 0);
             maxDrawdown = maxDrawdownLoop fl monthlyReturns
         in
         \<lparr> metrics_cagr = cagr, metrics_volatility = volatility, metrics_sharpe = sharpe,
           metrics_sortino = sortino, metrics_cvar = Fin cvar,
           metrics_maxDrawdown = Fin (fl (maxDrawdown * 100)),
           metrics_frequency = Some (frequency_name frequency),
           metrics_periodsPerYear = Some (frequency_periods frequency) \<rparr>))"

text \<open>
  In \<^verbatim>\<open>calculateAdditionalMetrics\<close> the element \<^verbatim>\<open>sortedReturns[index]\<close> is
  \<^verbatim>\<open>undefined\<close> when the index is not below the length, and its product with 100 is
  \<^verbatim>\<open>NaN\<close>.
\<close>

record AdditionalMetrics =
  additional_skewness :: jsnum
  additional_kurtosis :: jsnum
  additional_var95 :: jsnum
  additional_var99 :: jsnum
  additional_beta :: jsnum
  additional_alpha :: jsnum
  additional_frequency :: "string option"
  additional_periodsPerYear :: "nat option"

definition calculateAdditionalMetrics ::
  "rounding \<Rightarrow> dateParser \<Rightarrow> real list \<Rightarrow> real list option \<Rightarrow> string list option
     \<Rightarrow> AdditionalMetrics" where
  "calculateAdditionalMetrics fl parseDate returns benchmarkReturns dates =
     (if length returns = 0 then
        \<lparr> additional_skewness = Fin 0, additional_kurtosis = Fin 0, additional_var95 = Fin 0,
          additional_var99 = Fin 0, additional_beta = Fin 0, additional_alpha = Fin 0,
          additional_frequency = None, additional_periodsPerYear = None \<rparr>
      else
        (let frequency = detectFrequency parseDate returns dates;
             periodsPerYear = real (frequency_periods frequency);
             monthlyReturns = map (\<lambda>r. fl (r / 100)) returns;
             meanReturn = fl (foldl (\<lambda>a b. fl (a + b)) 0 monthlyReturns
                                / real (length monthlyReturns));
             n = real (length monthlyReturns);
             cubed = js_fl fl
                       (js_div (Fin (foldl (\<lambda>acc ret. fl (acc + fl (fl (ret - meanReturn) ^ 3))) 0
                                           monthlyReturns))
                               (Fin (n - 1)));
             variance = sampleVariance fl monthlyReturns meanReturn;
             skewness = js_fl fl (js_div cubed (js_fl fl (js_pow variance (fl (3 / 2)))));
             fourth = js_fl fl
                        (js_div (Fin (foldl (\<lambda>acc ret. fl (acc + fl (fl (ret - meanReturn) ^ 4))) 0
                                            monthlyReturns))
                                (Fin (n - 1)));
             kurtosis = js_fl fl (js_sub (js_fl fl (js_div fourth (js_fl fl (js_pow variance 2))))
                                         (Fin 3));
             sortedReturns = sort monthlyReturns;
             var95Index = nat \<lfloor>fl (real (length sortedReturns) * fl 0.05)\<rfloor>;
             var99Index = nat \<lfloor>fl (real (length sortedReturns) * fl 0.01)\<rfloor>;
             var95 = (if var95Index > 0 then
                        (if var95Index < length sortedReturns
                         then Fin (fl (sortedReturns ! var95Index * 100)) else NaN)
                      else Fin 0);
             var99 = (if var99Index > 0 then
                        (if var99Index < length sortedReturns
                         then Fin (fl (sortedReturns ! var99Index * 100)) else NaN)
                      else Fin 0);
             (beta, alpha) =
               (case benchmarkReturns of
                  None \<Rightarrow> (Fin 0, Fin 0)
                | Some bs \<Rightarrow>
                    if length bs = length returns then
                      (let benchmarkDecimal = map (\<lambda>r. fl (r / 100)) bs;
                           benchmarkMean = fl (foldl (\<lambda>a b. fl (a + b)) 0 benchmarkDecimal
                                                 / real (length benchmarkDecimal));
                           covariance =
                             js_fl fl
                               (js_div (Fin (foldl (\<lambda>acc (ret, b).
                                                      fl (acc + fl (fl (ret - meanReturn)
                                                                      * fl (b - benchmarkMean))))
                                                   0 (zip monthlyReturns benchmarkDecimal)))
                                       (Fin (n - 1)));
                           benchmarkVariance =
                             js_fl fl
                               (js_div (Fin (foldl (\<lambda>acc ret.
                                                      fl (acc + fl (fl (ret - benchmarkMean) ^ 2)))
                                                   0 benchmarkDecimal))
                                       (Fin (n - 1)));
                           beta' = (if js_gt benchmarkVariance (Fin 0)
                                    then js_fl fl (js_div covariance benchmarkVariance) else Fin 0);
                           alpha' = js_fl fl (js_mul
                                      (js_fl fl (js_mul
                                         (js_fl fl (js_sub (Fin meanReturn)
                                                      (js_fl fl (js_mul beta' (Fin benchmarkMean)))))
                                         (Fin periodsPerYear)))
                                      (Fin 100))
                       in (beta', alpha'))
                    else (Fin 0, Fin 0))
         in
         \<lparr> additional_skewness = skewness, additional_kurtosis = kurtosis,
           additional_var95 = var95, additional_var99 = var99,
           additional_beta = beta, additional_alpha = alpha,
           additional_frequency = Some (frequency_name frequency),
           additional_periodsPerYear = Some (frequency_periods frequency) \<rparr>))"

section \<open>Return Aggregator\<close>

text \<open>
  \<^verbatim>\<open>calculateCumulativeReturns(returns)\<close>: the \<^verbatim>\<open>for\<close> loop over \<^verbatim>\<open>i\<close> with the
  mutable \<^verbatim>\<open>cumulative\<close> and \<^verbatim>\<open>result\<close>.
\<close>

function cumulativeLoop :: "real list \<Rightarrow> nat \<Rightarrow> real \<Rightarrow> real list \<Rightarrow> real list" where
  "cumulativeLoop returns i cumulative result =
     (if i < length returns then
        (if i = 0 then cumulativeLoop returns (i + 1) cumulative (result @ [0])
         else
           (let cumulative' = (1 + cumulative / 100) * (1 + returns ! (i - 1) / 100) * 100 - 100
            in cumulativeLoop returns (i + 1) cumulative' (result @ [cumulative'])))
      else result)"
  by pat_completeness auto

termination
  by (relation "measure (\<lambda>(returns, i, cumulative, result). length returns - i)") auto

declare cumulativeLoop.simps [simp del]

definition calculateCumulativeReturns :: "real list \<Rightarrow> real list" where
  "calculateCumulativeReturns returns =
     (if length returns = 0 then [] else cumulativeLoop returns 0 0 [])"

text \<open>
  A weight map is a JavaScript object from asset ids to numbers. It is the list of its
  entries in the order of \<^verbatim>\<open>Object.keys\<close>; the keys of an object are distinct.

  \<^verbatim>\<open>calculatePortfolioReturns(weights, assetReturns, indices)\<close>. A series of
  \<^verbatim>\<open>assetReturns\<close> holds a number, or \<^verbatim>\<open>null\<close> or \<^verbatim>\<open>undefined\<close> (\<open>None\<close>), at
  each position; reading it outside its range gives \<^verbatim>\<open>undefined\<close>. On a number
  \<^verbatim>\<open>parseFloat(weight || 0)\<close> is the number itself. The filter keeps the entries of
  \<^verbatim>\<open>weights\<close> whose key passes; \<^verbatim>\<open>weights[asset]\<close> is then the value of that entry.
\<close>

type_synonym weightMap = "(string \<times> real) list"

definition elementAt :: "'a option list \<Rightarrow> int \<Rightarrow> 'a option" where
  "elementAt xs index =
     (if 0 \<le> index \<and> index < int (length xs) then xs ! nat index else None)"

definition calculatePortfolioReturns ::
  "weightMap \<Rightarrow> (string \<rightharpoonup> real option list) \<Rightarrow> int list \<Rightarrow> real list" where
  "calculatePortfolioReturns weights assetReturns indices =
     (let totalWeight = foldl (\<lambda>sum weight. sum + weight) 0 (map snd weights) in
      if totalWeight = 0 then map (\<lambda>_. 0) indices
      else
        (let activeAssets =
               filter (\<lambda>(asset, weight). weight > 0 \<and> assetReturns asset \<noteq> None) weights in
         if length activeAssets = 0 then map (\<lambda>_. 0) indices
         else
           map (\<lambda>index.
                  foldl (\<lambda>portfolioReturn (asset, weight).
                           (case assetReturns asset of
                              None \<Rightarrow> portfolioReturn
                            | Some series \<Rightarrow>
                                (case elementAt series index of
                                   None \<Rightarrow> portfolioReturn
                                 | Some assetReturn \<Rightarrow>
                                     portfolioReturn + (weight / 100) * assetReturn)))
                        0 activeAssets)
               indices))"

section \<open>Weight Normalizer\<close>

text \<open>
  \<^verbatim>\<open>normalizeWeights(weights)\<close> of \<^verbatim>\<open>js/portfolio-metrics.js\<close>. Its first pass stores
  \<^verbatim>\<open>parseFloat(...).toFixed(1)\<close>, which is a string: \<open>FixedString x\<close> is the decimal
  string with one fractional digit that denotes \<open>x\<close>. Only the adjusted largest holding
  is stored as a number again. When the sum is not positive the copy of the input is returned
  as it is. The function assigns only to keys of the copy \<^verbatim>\<open>{ ...weights }\<close>, which has
  every key of its argument.

  \<open>findLargest\<close> is the \<^verbatim>\<open>forEach\<close> that looks for the largest weight, from
  \<^verbatim>\<open>largestAsset = null\<close> and \<^verbatim>\<open>largestWeight = -1\<close>. The test
  \<^verbatim>\<open>if (largestAsset)\<close> fails for \<^verbatim>\<open>null\<close> and for the empty string.
\<close>

datatype weightValue = NumberValue real | FixedString real

fun parseFloat :: "weightValue \<Rightarrow> real" where
  "parseFloat (NumberValue x) = x"
| "parseFloat (FixedString x) = x"

definition findLargest :: "weightMap \<Rightarrow> string option \<times> real" where
  "findLargest normalized =
     foldl (\<lambda>(largestAsset, largestWeight) (asset, weight).
              if weight > largestWeight then (Some asset, weight)
              else (largestAsset, largestWeight))
           (None, - 1) normalized"

definition updateAt :: "string \<Rightarrow> (real \<Rightarrow> real) \<Rightarrow> weightMap \<Rightarrow> weightMap" where
  "updateAt asset f weights =
     map (\<lambda>(k, v). if k = asset then (k, f v) else (k, v)) weights"

definition updateValueAt ::
  "string \<Rightarrow> (weightValue \<Rightarrow> weightValue) \<Rightarrow> (string \<times> weightValue) list
     \<Rightarrow> (string \<times> weightValue) list" where
  "updateValueAt asset f weights =
     map (\<lambda>(k, v). if k = asset then (k, f v) else (k, v)) weights"

definition normalizeWeights :: "weightMap \<Rightarrow> (string \<times> weightValue) list" where
  "normalizeWeights weights =
     (let normalizedWeights = map (\<lambda>(asset, w). (asset, NumberValue w)) weights;
          sum = foldl (\<lambda>a b. a + parseFloat b) 0 (map snd normalizedWeights) in
      if sum > 0 then
        (let rounded =
               map (\<lambda>(asset, v). (asset, FixedString (toFixed1 ((parseFloat v / sum) * 100))))
                 normalizedWeights;
             roundedSum = foldl (\<lambda>a b. a + parseFloat b) 0 (map snd rounded);
             difference = toFixed1 (100 - roundedSum) in
         if \<bar>difference\<bar> > 0 then
           (case findLargest (map (\<lambda>(asset, v). (asset, parseFloat v)) rounded) of
              (Some largestAsset, largestWeight) \<Rightarrow>
                if largestAsset \<noteq> [] then
                  updateValueAt largestAsset
                    (\<lambda>v. NumberValue (toFixed1 (parseFloat v + difference))) rounded
                else rounded
            | (None, largestWeight) \<Rightarrow> rounded)
         else rounded)
      else normalizedWeights)"

section \<open>Local-Search Optimizer\<close>

text \<open>
  The class \<^verbatim>\<open>PortfolioOptimizer\<close>. The constructor reads each option with
  \<^verbatim>\<open>options.x || default\<close>, so an absent option and the option 0 both give the default;
  \<open>orElse\<close> is \<^verbatim>\<open>v || d\<close> for a value that is \<^verbatim>\<open>undefined\<close> (\<open>None\<close>) or a finite
  number.
\<close>

record optimizerOptions =
  options_stepSize :: "real option"
  options_maxIterations :: "real option"
  options_tolerance :: "real option"
  options_maxStagnation :: "real option"

record PortfolioOptimizer =
  this_stepSize :: real
  this_maxIterations :: real
  this_tolerance :: real
  this_maxStagnation :: real

definition orElse :: "real option \<Rightarrow> real \<Rightarrow> real" where
  "orElse v d = (case v of None \<Rightarrow> d | Some x \<Rightarrow> if x = 0 then d else x)"

definition newPortfolioOptimizer :: "optimizerOptions \<Rightarrow> PortfolioOptimizer" where
  "newPortfolioOptimizer options =
     \<lparr> this_stepSize = orElse (options_stepSize options) 0.1,
       this_maxIterations = orElse (options_maxIterations options) 100,
       this_tolerance = orElse (options_tolerance options) (1 / 1000000),
       this_maxStagnation = orElse (options_maxStagnation options) 10 \<rparr>"

text \<open>
  The evaluation callback either throws or returns; what it returns is falsy (\<open>None\<close>) or
  an object of the shape of the metrics result, each of whose numeric fields is a finite number
  or is missing (\<open>None\<close>). The callback is a function of the weights it is given.

  \<^verbatim>\<open>calculateObjectiveFunction(weights, objective, calculateMetrics)\<close>: its own
  \<^verbatim>\<open>try\<close>/\<^verbatim>\<open>catch\<close> turns an exception of the callback into the penalty.
  \<^verbatim>\<open>Math.abs(undefined)\<close> is \<^verbatim>\<open>NaN\<close>, which is falsy like \<^verbatim>\<open>undefined\<close>.
\<close>

datatype callbackResult = Throws | Returns "real option MetricsResult option"

type_synonym metricsCallback = "weightMap \<Rightarrow> callbackResult"

definition calculateObjectiveFunction :: "weightMap \<Rightarrow> string \<Rightarrow> metricsCallback \<Rightarrow> real" where
  "calculateObjectiveFunction weights objective calculateMetrics =
     (case calculateMetrics weights of
        Throws \<Rightarrow> (if objective = ''risk'' then 999 else - 999)
      | Returns None \<Rightarrow> (if objective = ''risk'' then 999 else - 999)
      | Returns (Some metrics) \<Rightarrow>
          (if objective = ''sharpe'' then orElse (metrics_sharpe metrics) (- 999)
           else if objective = ''risk'' then - (orElse (metrics_volatility metrics) 999)
           else if objective = ''sortino'' then orElse (metrics_sortino metrics) (- 999)
           else if objective = ''cvar'' then - (orElse (map_option abs (metrics_cvar metrics)) 999)
           else orElse (metrics_sharpe metrics) (- 999)))"

text \<open>
  The optimizer builds three objects from an empty one, \<^verbatim>\<open>normalized\<close>,
  \<^verbatim>\<open>gradients\<close> and \<^verbatim>\<open>totalChanges\<close>, by the assignments
  \<^verbatim>\<open>object[asset] = number\<close>, one for each key of the weights. On an object that has no
  own property of that name, the assignment to the key \<^verbatim>\<open>__proto__\<close> reaches the setter
  of \<^verbatim>\<open>Object.prototype\<close>, which ignores a number: no property is created, and the
  key is missing from the object that results. A copy \<^verbatim>\<open>{ ...weights }\<close> keeps such a
  key as an own property, and assignments to it then update that property.
\<close>

definition assignedObject :: "(string \<times> 'a) list \<Rightarrow> (string \<times> 'a) list" where
  "assignedObject entries = filter (\<lambda>(key, v). key \<noteq> ''__proto__'') entries"

text \<open>
  \<^verbatim>\<open>isValidWeightAllocation\<close>, \<^verbatim>\<open>isMetricImprovement\<close> and the normalizer of the class,
  \<^verbatim>\<open>PortfolioOptimizer.normalizeWeights\<close>. Its sum runs over the weights it is given,
  its result is an object built by assignment. For an empty map the \<^verbatim>\<open>else\<close> branch
  computes \<^verbatim>\<open>equalWeight\<close> from \<^verbatim>\<open>100 / 0\<close> and stores it nowhere.
\<close>

definition isValidWeightAllocation :: "weightMap \<Rightarrow> bool" where
  "isValidWeightAllocation weights =
     (let sum = foldl (\<lambda>a b. a + b) 0 (map snd weights);
          allNonNegative = list_all (\<lambda>w. w \<ge> 0) (map snd weights);
          allWithinBounds = list_all (\<lambda>w. w \<le> 100) (map snd weights) in
      allNonNegative \<and> allWithinBounds \<and> \<bar>sum - 100\<bar> < 0.01)"

definition isMetricImprovement :: "real \<Rightarrow> real \<Rightarrow> string \<Rightarrow> bool" where
  "isMetricImprovement newMetric currentBest objective =
     (if objective = ''risk'' \<or> objective = ''cvar'' then newMetric > currentBest
      else newMetric > currentBest)"

definition optimizer_normalizeWeights :: "weightMap \<Rightarrow> weightMap" where
  "optimizer_normalizeWeights weights =
     (let sum = foldl (\<lambda>a b. a + b) 0 (map snd weights) in
      if sum > 0 then
        (let normalized =
               assignedObject (map (\<lambda>(asset, w). (asset, toFixed1 ((w / sum) * 100))) weights);
             normalizedSum = foldl (\<lambda>a b. a + b) 0 (map snd normalized);
             difference = toFixed1 (100 - normalizedSum) in
         if \<bar>difference\<bar> > 0 then
           (case findLargest normalized of
              (Some largestAsset, largestWeight) \<Rightarrow>
                if largestAsset \<noteq> [] then
                  updateAt largestAsset (\<lambda>v. toFixed1 (v + difference)) normalized
                else normalized
            | (None, largestWeight) \<Rightarrow> normalized)
         else normalized)
      else
        (let equalWeight = toFixed1 (100 / real (length weights)) in
         assignedObject (map (\<lambda>(asset, w). (asset, equalWeight)) weights)))"

text \<open>
  \<open>valueOf\<close> is the property read \<^verbatim>\<open>object[asset]\<close>. Every key the optimizer reads
  in \<^verbatim>\<open>gradients\<close> and in \<^verbatim>\<open>totalChanges\<close> comes from
  \<^verbatim>\<open>Object.keys(gradients)\<close>, and both objects are built by assignment from the keys of
  the weights; every key it reads in the weights is one of their keys. So the read is
  defined.

  \<^verbatim>\<open>calculateGradients(weights, stepSize, objective, calculateMetrics)\<close>: for each asset
  the first other asset holding at least \<^verbatim>\<open>stepSize\<close> is decreased. The test
  \<^verbatim>\<open>decreaseAsset && ...\<close> fails for \<^verbatim>\<open>null\<close> and for the empty string. The
  perturbed weights are a copy of the weights; the gradients are an object built by
  assignment.
\<close>

definition valueOf :: "weightMap \<Rightarrow> string \<Rightarrow> real" where
  "valueOf weights asset = (case map_of weights asset of Some v \<Rightarrow> v | None \<Rightarrow> 0)"

definition calculateGradients :: "weightMap \<Rightarrow> real \<Rightarrow> string \<Rightarrow> metricsCallback \<Rightarrow> weightMap" where
  "calculateGradients weights stepSize objective calculateMetrics =
     (let baseMetric = calculateObjectiveFunction weights objective calculateMetrics in
      assignedObject (map (\<lambda>(asset, w).
        (case List.find (\<lambda>(otherAsset, ow). otherAsset \<noteq> asset \<and> ow \<ge> stepSize) weights of
           None \<Rightarrow> (asset, 0)
         | Some (decreaseAsset, dw) \<Rightarrow>
             if decreaseAsset \<noteq> [] \<and> w + stepSize \<le> 100 then
               (let perturbedWeights =
                      updateAt decreaseAsset (\<lambda>v. v - stepSize)
                        (updateAt asset (\<lambda>v. v + stepSize) weights) in
                if isValidWeightAllocation perturbedWeights then
                  (let perturbedMetric =
                         calculateObjectiveFunction perturbedWeights objective calculateMetrics in
                   (asset, (perturbedMetric - baseMetric) / stepSize))
                else (asset, 0))
             else (asset, 0))) weights))"

text \<open>
  The \<^verbatim>\<open>while\<close> loop of \<^verbatim>\<open>gradientDescentOptimization\<close>. Its state is the mutable
  variables of the function. \<open>scanIncrease\<close> and \<open>scanDecrease\<close> are the two nested
  \<^verbatim>\<open>for\<close> loops, which stop at the first pair that improves; \<open>searchStep\<close> is one
  pass of the body, which leaves the loop (\<open>Break\<close>) or goes on with the new state.
  \<^verbatim>\<open>sort\<close> with the comparator \<^verbatim>\<open>gradients[b] - gradients[a]\<close> is a stable sort by
  descending gradient.

  The sums \<^verbatim>\<open>newWeights[asset] += stepSize\<close> are exact here and rounded in the code, where
  50.2 + 0.1 is 50.300000000000004. The results proved below for every input use of the new
  weights only that they passed the validity test and what the callback returns for them; in
  the examples no move is accepted.
\<close>

record searchState =
  currentWeights :: weightMap
  bestMetric :: real
  bestWeights :: weightMap
  totalChanges :: weightMap
  iteration :: nat
  stagnationCount :: nat

datatype 'a loopStep = Break | Continue 'a

fun scanDecrease ::
  "real \<Rightarrow> real \<Rightarrow> string \<Rightarrow> metricsCallback \<Rightarrow> searchState \<Rightarrow> string \<Rightarrow> string list
     \<Rightarrow> (string \<times> weightMap \<times> real) option" where
  "scanDecrease stepSize turnoverLimitPercent objective calculateMetrics s asset [] = None"
| "scanDecrease stepSize turnoverLimitPercent objective calculateMetrics s asset (decreaseAsset # rest) =
     (if \<bar>valueOf (totalChanges s) decreaseAsset\<bar> < turnoverLimitPercent
         \<and> valueOf (currentWeights s) decreaseAsset > 0
         \<and> valueOf (currentWeights s) decreaseAsset - stepSize \<ge> 0 then
        (let newWeights =
               updateAt decreaseAsset (\<lambda>v. v - stepSize)
                 (updateAt asset (\<lambda>v. v + stepSize) (currentWeights s)) in
         if isValidWeightAllocation newWeights then
           (let newMetric = calculateObjectiveFunction newWeights objective calculateMetrics in
            if isMetricImprovement newMetric (bestMetric s) objective then
              Some (decreaseAsset, newWeights, newMetric)
            else scanDecrease stepSize turnoverLimitPercent objective calculateMetrics s asset rest)
         else scanDecrease stepSize turnoverLimitPercent objective calculateMetrics s asset rest)
      else scanDecrease stepSize turnoverLimitPercent objective calculateMetrics s asset rest)"

fun scanIncrease ::
  "real \<Rightarrow> real \<Rightarrow> string \<Rightarrow> metricsCallback \<Rightarrow> searchState \<Rightarrow> string list \<Rightarrow> string list
     \<Rightarrow> (string \<times> string \<times> weightMap \<times> real) option" where
  "scanIncrease stepSize turnoverLimitPercent objective calculateMetrics s [] assetsToDecrease = None"
| "scanIncrease stepSize turnoverLimitPercent objective calculateMetrics s (asset # rest) assetsToDecrease =
     (if \<bar>valueOf (totalChanges s) asset\<bar> < turnoverLimitPercent
         \<and> valueOf (currentWeights s) asset < 100
         \<and> valueOf (currentWeights s) asset + stepSize \<le> 100 then
        (case scanDecrease stepSize turnoverLimitPercent objective calculateMetrics s asset
                assetsToDecrease of
           Some (decreaseAsset, newWeights, newMetric) \<Rightarrow>
             Some (asset, decreaseAsset, newWeights, newMetric)
         | None \<Rightarrow>
             scanIncrease stepSize turnoverLimitPercent objective calculateMetrics s rest
               assetsToDecrease)
      else scanIncrease stepSize turnoverLimitPercent objective calculateMetrics s rest
             assetsToDecrease)"

definition searchStep ::
  "real \<Rightarrow> real \<Rightarrow> string \<Rightarrow> metricsCallback \<Rightarrow> searchState \<Rightarrow> searchState loopStep" where
  "searchStep stepSize turnoverLimitPercent objective calculateMetrics s =
     (let gradients = calculateGradients (currentWeights s) stepSize objective calculateMetrics in
      if length gradients = 0 then Break
      else
        (let sortedAssets = sort_key (\<lambda>asset. - valueOf gradients asset) (map fst gradients);
             assetsToIncrease = filter (\<lambda>asset. valueOf gradients asset > 0) sortedAssets;
             assetsToDecrease = filter (\<lambda>asset. valueOf gradients asset < 0) sortedAssets in
         if length assetsToIncrease = 0 \<or> length assetsToDecrease = 0 then
           Continue (s\<lparr> stagnationCount := stagnationCount s + 1, iteration := iteration s + 1 \<rparr>)
         else
           (let canIncrease =
                  list_ex (\<lambda>asset. \<bar>valueOf (totalChanges s) asset\<bar> < turnoverLimitPercent
                                   \<and> valueOf (currentWeights s) asset < 100) assetsToIncrease;
                canDecrease =
                  list_ex (\<lambda>asset. \<bar>valueOf (totalChanges s) asset\<bar> < turnoverLimitPercent
                                   \<and> valueOf (currentWeights s) asset > 0) assetsToDecrease in
            if \<not> canIncrease \<or> \<not> canDecrease then Break
            else
              (case scanIncrease stepSize turnoverLimitPercent objective calculateMetrics s
                      assetsToIncrease assetsToDecrease of
                 Some (asset, decreaseAsset, newWeights, newMetric) \<Rightarrow>
                   Continue (s\<lparr> currentWeights := newWeights,
                                bestMetric := newMetric,
                                bestWeights := newWeights,
                                totalChanges :=
                                  updateAt decreaseAsset (\<lambda>v. v - stepSize)
                                    (updateAt asset (\<lambda>v. v + stepSize) (totalChanges s)),
                                stagnationCount := 0,
                                iteration := iteration s + 1 \<rparr>)
               | None \<Rightarrow>
                   Continue (s\<lparr> stagnationCount := stagnationCount s + 1,
                                iteration := iteration s + 1 \<rparr>)))))"

text \<open>
  Every pass that goes on increments \<^verbatim>\<open>iteration\<close>, so the loop ends within
  \<^verbatim>\<open>maxIterations\<close> passes.
\<close>

lemma searchStep_iteration:
  "searchStep stepSize turnoverLimitPercent objective calculateMetrics s = Continue s'
   \<Longrightarrow> iteration s' = iteration s + 1"
  unfolding searchStep_def Let_def
  by (auto split: if_splits option.splits prod.splits)

function searchLoop ::
  "int \<Rightarrow> real \<Rightarrow> real \<Rightarrow> real \<Rightarrow> string \<Rightarrow> metricsCallback \<Rightarrow> searchState \<Rightarrow> searchState" where
  "searchLoop maxIterations maxStagnation stepSize turnoverLimitPercent objective calculateMetrics s =
     (if int (iteration s) < maxIterations \<and> real (stagnationCount s) < maxStagnation then
        (case searchStep stepSize turnoverLimitPercent objective calculateMetrics s of
           Break \<Rightarrow> s
         | Continue s' \<Rightarrow>
             searchLoop maxIterations maxStagnation stepSize turnoverLimitPercent objective
               calculateMetrics s')
      else s)"
  by pat_completeness auto

termination
  by (relation "measure (\<lambda>(maxIterations, maxStagnation, stepSize, turnoverLimitPercent,
                            objective, calculateMetrics, s). nat (maxIterations - int (iteration s)))")
     (auto dest: searchStep_iteration)

declare searchLoop.simps [simp del]

text \<open>
  \<^verbatim>\<open>gradientDescentOptimization(weights, objective, calculateMetrics, turnoverLimit = 1.0)\<close>.
  The weights are an object of numbers, or \<^verbatim>\<open>null\<close> (\<open>None\<close>), for which
  \<^verbatim>\<open>Object.keys(weights)\<close> throws a \<^verbatim>\<open>TypeError\<close> that the \<^verbatim>\<open>catch\<close> of the
  function turns into the failure result. On a number \<^verbatim>\<open>parseFloat(x) || 0\<close> is the
  number itself. The current and the best weights are copies of the weights;
  \<^verbatim>\<open>totalChanges\<close> is an object built by assignment. The local \<^verbatim>\<open>maxIterations\<close> is
  \<^verbatim>\<open>Math.floor(turnoverLimitPercent / stepSize)\<close>; the step size of a constructed
  optimizer is not 0.
\<close>

datatype jsError = TypeError

datatype OptimizationResult =
    Success (result_weights: weightMap) (result_initialMetric: real) (result_finalMetric: real)
            (result_iterations: nat) (result_improvement: real)
  | Failure (result_error: jsError)

definition success :: "OptimizationResult \<Rightarrow> bool" where
  "success r = (case r of Success w i f n d \<Rightarrow> True | Failure e \<Rightarrow> False)"

definition gradientDescentOptimization ::
  "PortfolioOptimizer \<Rightarrow> weightMap option \<Rightarrow> string \<Rightarrow> metricsCallback \<Rightarrow> real option
     \<Rightarrow> OptimizationResult" where
  "gradientDescentOptimization this weights objective calculateMetrics turnoverLimit =
     (case weights of
        None \<Rightarrow> Failure TypeError
      | Some ws \<Rightarrow>
          (let turnoverLimitPercent = (case turnoverLimit of None \<Rightarrow> 1 | Some limit \<Rightarrow> limit);
               stepSize = this_stepSize this;
               maxIterations = \<lfloor>turnoverLimitPercent / stepSize\<rfloor>;
               initialMetric = calculateObjectiveFunction ws objective calculateMetrics;
               s = searchLoop maxIterations (this_maxStagnation this) stepSize turnoverLimitPercent
                     objective calculateMetrics
                     \<lparr> currentWeights = ws,
                       bestMetric = initialMetric,
                       bestWeights = ws,
                       totalChanges = assignedObject (map (\<lambda>(asset, w). (asset, 0)) ws),
                       iteration = 0,
                       stagnationCount = 0 \<rparr>;
               finalWeights = optimizer_normalizeWeights (bestWeights s) in
           Success finalWeights initialMetric (bestMetric s) (iteration s)
                   (bestMetric s - initialMetric)))"

section \<open>Reference definitions of the statements\<close>

text \<open>
  The sum the aggregator is specified to return at one index: over the assets of positive
  weight with a defined value at that index, weight/100 times the value.
\<close>

definition valueAt :: "(string \<rightharpoonup> real option list) \<Rightarrow> string \<Rightarrow> int \<Rightarrow> real option" where
  "valueAt assetReturns asset index =
     (case assetReturns asset of None \<Rightarrow> None | Some series \<Rightarrow> elementAt series index)"

definition weightedSumAt :: "weightMap \<Rightarrow> (string \<rightharpoonup> real option list) \<Rightarrow> int \<Rightarrow> real" where
  "weightedSumAt weights assetReturns index =
     sum_list (List.map_filter
       (\<lambda>(asset, weight).
          if weight > 0 then map_option (\<lambda>v. (weight / 100) * v) (valueAt assetReturns asset index)
          else None) weights)"

text \<open>
  The numeric reading of the output of the standalone normalizer, and the invariant the
  data model states for a normalized weight map: every weight in [0,100], the sum within
  0.05 of 100.
\<close>

definition numericWeights :: "(string \<times> weightValue) list \<Rightarrow> weightMap" where
  "numericWeights weights = map (\<lambda>(asset, v). (asset, parseFloat v)) weights"

definition normalizerPostcondition :: "(string \<times> weightValue) list \<Rightarrow> bool" where
  "normalizerPostcondition weights =
     (list_all (\<lambda>v. 0 \<le> parseFloat v \<and> parseFloat v \<le> 100) (map snd weights)
      \<and> \<bar>sum_list (map parseFloat (map snd weights)) - 100\<bar> \<le> 0.05)"

text \<open>
  What both normalizers compute from weights of positive sum: the shares of 100, rounded to
  one decimal, and then the remainder to 100 put on the largest share.
\<close>

definition roundedShares :: "weightMap \<Rightarrow> weightMap" where
  "roundedShares ws =
     map (\<lambda>(asset, w). (asset, toFixed1 ((w / sum_list (map snd ws)) * 100))) ws"

definition adjustedShares :: "weightMap \<Rightarrow> weightMap" where
  "adjustedShares ws =
     (let difference = toFixed1 (100 - sum_list (map snd (roundedShares ws))) in
      if \<bar>difference\<bar> > 0 then
        (case findLargest (roundedShares ws) of
           (Some largestAsset, largestWeight) \<Rightarrow>
             if largestAsset \<noteq> [] then
               updateAt largestAsset (\<lambda>v. toFixed1 (v + difference)) (roundedShares ws)
             else roundedShares ws
         | (None, largestWeight) \<Rightarrow> roundedShares ws)
      else roundedShares ws)"

text \<open>
  A multiple of 0.1, the grid of \<^verbatim>\<open>toFixed(1)\<close>.
\<close>

definition tenths :: "real \<Rightarrow> bool" where
  "tenths x = (\<exists>k::int. x = of_int k / 10)"

text \<open>
  Invariants of the search loop: the best weights are the initial ones or passed the validity
  test; with a callback that always throws nothing improves; the best metric is the objective
  at the best weights and never falls below the initial one.
\<close>

definition searchInv :: "weightMap \<Rightarrow> searchState \<Rightarrow> bool" where
  "searchInv ws t =
     (map fst (bestWeights t) = map fst ws \<and> currentWeights t = bestWeights t
      \<and> (bestWeights t = ws \<or> isValidWeightAllocation (bestWeights t)))"

definition penaltyInv :: "weightMap \<Rightarrow> real \<Rightarrow> searchState \<Rightarrow> bool" where
  "penaltyInv ws p t = (bestWeights t = ws \<and> bestMetric t = p)"


text \<open>
  Inputs of the examples: \<^verbatim>\<open>new PortfolioOptimizer()\<close>; a date parser for labels none
  of which is a date; a callback whose Sharpe ratio drops from 2 to 1 when asset A reaches
  50.28 percent.
\<close>

definition defaultOptions :: optimizerOptions where
  "defaultOptions = \<lparr> options_stepSize = None, options_maxIterations = None,
                       options_tolerance = None, options_maxStagnation = None \<rparr>"

definition unparsable :: dateParser where
  "unparsable label = None"

definition cliffCallback :: metricsCallback where
  "cliffCallback w =
     Returns (Some \<lparr> metrics_cagr = None, metrics_volatility = None,
                      metrics_sharpe = Some (if valueOf w ''A'' < 50.28 then 2 else 1),
                      metrics_sortino = None, metrics_cvar = None, metrics_maxDrawdown = None,
                      metrics_frequency = None, metrics_periodsPerYear = None \<rparr>)"

text \<open>
  Sixty assets "a", "aa", "aaa", ... of the equal weight 1.
\<close>

definition sixtyEqual :: weightMap where
  "sixtyEqual = map (\<lambda>i. (replicate (Suc i) CHR ''a'', 1)) [0 ..< 60]"

text \<open>
  A callback whose metrics are all defined and all 0.
\<close>

definition zeroMetrics :: metricsCallback where
  "zeroMetrics w =
     Returns (Some \<lparr> metrics_cagr = Some 0, metrics_volatility = Some 0, metrics_sharpe = Some 0,
                      metrics_sortino = Some 0, metrics_cvar = Some 0,
                      metrics_maxDrawdown = Some 0,
                      metrics_frequency = None, metrics_periodsPerYear = None \<rparr>)"

section \<open>Sums and rounding\<close>

lemma reduce_sum_list: "foldl (\<lambda>a b. a + b) (acc::real) xs = acc + sum_list xs"
  by (induction xs arbitrary: acc) simp_all

lemma sum_list_scale: "sum_list (map (\<lambda>w. w * c) xs) = sum_list xs * (c::real)"
  by (induction xs) (simp_all add: distrib_right)

lemma sum_list_error:
  fixes f g :: "'a \<Rightarrow> real"
  assumes "\<forall>x \<in> set xs. \<bar>f x - g x\<bar> \<le> e"
  shows "\<bar>sum_list (map f xs) - sum_list (map g xs)\<bar> \<le> real (length xs) * e"
  using assms
proof (induction xs)
  case Nil
  show ?case by simp
next
  case (Cons x xs)
  then have "\<bar>f x - g x\<bar> \<le> e"
    and "\<bar>sum_list (map f xs) - sum_list (map g xs)\<bar> \<le> real (length xs) * e"
    by simp_all
  then show ?case by (simp add: algebra_simps)
qed

lemma sum_list_le_length_max:
  fixes vs :: "real list"
  assumes "\<forall>v \<in> set vs. v \<le> m"
  shows "sum_list vs \<le> real (length vs) * m"
  using assms by (induction vs) (auto simp: algebra_simps)

lemma member_le_sum_list_real:
  fixes vs :: "real list"
  assumes "\<forall>v \<in> set vs. 0 \<le> v" and "x \<in> set vs"
  shows "x \<le> sum_list vs"
  using assms
proof (induction vs)
  case Nil
  then show ?case by simp
next
  case (Cons v vs)
  have nn: "0 \<le> sum_list vs" using Cons.prems(1) by (simp add: sum_list_nonneg)
  show ?case
  proof (cases "x = v")
    case True
    then show ?thesis using nn by simp
  next
    case False
    then have "x \<le> sum_list vs" using Cons by simp
    moreover have "0 \<le> v" using Cons.prems(1) by simp
    ultimately show ?thesis by simp
  qed
qed

subsection \<open>Rounding to one decimal\<close>

lemma toFixed1_tenths: "tenths (toFixed1 x)"
proof (cases "x < 0")
  case True
  have "toFixed1 x = of_int (- \<lfloor>(- x) * 10 + 1 / 2\<rfloor>) / 10"
    using True by (simp add: toFixed1_def)
  then show ?thesis unfolding tenths_def by blast
next
  case False
  then show ?thesis unfolding tenths_def toFixed1_def by auto
qed

lemma toFixed1_of_tenths:
  assumes "tenths x"
  shows "toFixed1 x = x"
proof -
  from assms obtain k :: int where x: "x = of_int k / 10" unfolding tenths_def by blast
  have pos: "\<lfloor>(of_int j :: real) + 1 / 2\<rfloor> = j" for j :: int
    by linarith
  show ?thesis
  proof (cases "x < 0")
    case True
    have "(- x) * 10 = of_int (- k)" using x by simp
    then have "\<lfloor>(- x) * 10 + 1 / 2\<rfloor> = - k" using pos [of "- k"] by simp
    then show ?thesis using True x by (simp add: toFixed1_def)
  next
    case False
    have "x * 10 = of_int k" using x by simp
    then have "\<lfloor>x * 10 + 1 / 2\<rfloor> = k" using pos [of k] by simp
    then show ?thesis using False x by (simp add: toFixed1_def)
  qed
qed

lemma toFixed1_error: "\<bar>toFixed1 x - x\<bar> \<le> 1 / 20"
proof -
  have fl: "\<bar>of_int \<lfloor>y + 1 / 2\<rfloor> / 10 - y / 10\<bar> \<le> 1 / 20" for y :: real
    by linarith
  show ?thesis
  proof (cases "x < 0")
    case True
    define a :: real where "a = of_int \<lfloor>(- x) * 10 + 1 / 2\<rfloor> / 10"
    have "\<bar>a - (- x)\<bar> \<le> 1 / 20" using fl [of "(- x) * 10"] by (simp add: a_def)
    then have "\<bar>- a - x\<bar> \<le> 1 / 20" by (simp add: abs_if split: if_splits)
    then show ?thesis using True by (simp add: toFixed1_def a_def)
  next
    case False
    then show ?thesis using fl [of "x * 10"] by (simp add: toFixed1_def)
  qed
qed

lemma toFixed1_range:
  assumes "0 \<le> x" and "x \<le> 100"
  shows "0 \<le> toFixed1 x \<and> toFixed1 x \<le> 100"
proof -
  have lo: "0 \<le> \<lfloor>x * 10 + 1 / 2\<rfloor>" using assms by simp
  have "x * 10 + 1 / 2 < 1001" using assms by simp
  then have "\<lfloor>x * 10 + 1 / 2\<rfloor> < 1001" by linarith
  then have hi: "\<lfloor>x * 10 + 1 / 2\<rfloor> \<le> 1000" by simp
  have "(of_int \<lfloor>x * 10 + 1 / 2\<rfloor> :: real) \<le> 1000"
    using hi by (metis of_int_le_iff of_int_numeral)
  then show ?thesis using assms lo by (simp add: toFixed1_def)
qed

lemma tenths_add: "tenths x \<Longrightarrow> tenths y \<Longrightarrow> tenths (x + y)"
proof -
  assume "tenths x" "tenths y"
  then obtain k l :: int where "x = of_int k / 10" "y = of_int l / 10"
    unfolding tenths_def by blast
  then have "x + y = of_int (k + l) / 10" by simp
  then show ?thesis unfolding tenths_def by blast
qed

lemma tenths_diff: "tenths x \<Longrightarrow> tenths y \<Longrightarrow> tenths (x - y)"
proof -
  assume "tenths x" "tenths y"
  then obtain k l :: int where "x = of_int k / 10" "y = of_int l / 10"
    unfolding tenths_def by blast
  then have "x - y = of_int (k - l) / 10" by simp
  then show ?thesis unfolding tenths_def by blast
qed

lemma tenths_100: "tenths 100"
proof -
  have "(100::real) = of_int 1000 / 10" by simp
  then show ?thesis unfolding tenths_def by blast
qed

lemma tenths_0: "tenths 0"
  unfolding tenths_def by (rule exI [of _ 0]) simp

lemma tenths_sum_list: "\<forall>v \<in> set vs. tenths v \<Longrightarrow> tenths (sum_list vs)"
  by (induction vs) (simp_all add: tenths_0 tenths_add)

section \<open>Properties of the Frequency Detector\<close>

lemma detectFrequency_invalid_date:
  assumes "length ds \<ge> 2" and "parseDate (ds ! 0) = None \<or> parseDate (ds ! 1) = None"
  shows "detectFrequency parseDate returns (Some ds)
       = \<lparr> frequency_periods = 1, frequency_name = ''annual'', frequency_factor = 1 \<rparr>"
proof -
  have "(case (parseDate (ds ! 0), parseDate (ds ! 1)) of
           (Some t1, Some t2) \<Rightarrow> Fin \<bar>(t2 - t1) / (1000 * 60 * 60 * 24)\<bar>
         | _ \<Rightarrow> NaN) = NaN"
    using assms(2) by (auto split: option.splits)
  then show ?thesis
    using assms(1) by (simp add: detectFrequency_def Let_def js_le_def)
qed

lemma detectFrequency_valid:
  "frequency_periods (detectFrequency parseDate returns dates) \<in> {252, 52, 12, 4, 1}
   \<and> frequency_factor (detectFrequency parseDate returns dates)
       = sqrt (real (frequency_periods (detectFrequency parseDate returns dates)))"
  by (simp add: detectFrequency_def Let_def split: option.splits)

text \<open>
  C8. The claim: with at least two date labels none of which parses, \<open>detectFrequency\<close>
  returns what the length heuristic returns, and it always returns a valid frequency. The
  second half holds (\<open>detectFrequency_valid\<close>). The first does not: an invalid date makes
  the day gap \<^verbatim>\<open>NaN\<close>, no exception is thrown, every comparison fails and the last
  \<^verbatim>\<open>return\<close> of the \<^verbatim>\<open>try\<close> block answers annual, whatever the length
  (\<open>detectFrequency_invalid_date\<close>). For 36 returns with the labels "foo" and "bar" the
  function answers annual (1 period), where the length heuristic, which the \<^verbatim>\<open>catch\<close>
  block announces as the fallback, answers quarterly (4 periods).
\<close>

theorem detectFrequency_unparsable_dates:
  "detectFrequency unparsable (replicate 36 1) (Some [''foo'', ''bar''])
     = \<lparr> frequency_periods = 1, frequency_name = ''annual'', frequency_factor = 1 \<rparr>
   \<and> detectFrequency unparsable (replicate 36 1) None
     = \<lparr> frequency_periods = 4, frequency_name = ''quarterly'', frequency_factor = sqrt 4 \<rparr>"
  by (simp add: detectFrequency_def unparsable_def js_le_def Let_def)

section \<open>Properties of the Metrics Engine\<close>

text \<open>
  What the results below use of the rounding: it fixes 0, it fixes what it has rounded, and
  it is monotone. A sum of terms that are all 0 is then 0.
\<close>

lemma rounded_sum_zero:
  assumes "fl 0 = 0" and "\<forall>x \<in> set xs. g x = 0"
  shows "foldl (\<lambda>acc x. fl (acc + g x)) 0 xs = (0::real)"
  using assms by (induction xs) simp_all

text \<open>
  When every element is the computed mean, the sum of squared deviations is 0, and the
  variance is 0 or, with the divisor 0, \<^verbatim>\<open>NaN\<close>.
\<close>

lemma sampleVariance_at_mean:
  assumes zero: "fl 0 = 0" and ne: "xs \<noteq> []" and all: "\<forall>x \<in> set xs. x = m"
  shows "sampleVariance fl xs m = (if length xs = 1 then NaN else Fin 0)"
proof -
  have "\<forall>x \<in> set xs. fl (fl (x - m) ^ 2) = 0" using all zero by simp
  with zero have sq: "foldl (\<lambda>acc ret. fl (acc + fl (fl (ret - m) ^ 2))) 0 xs = 0"
    by (rule rounded_sum_zero)
  have "length xs \<noteq> 0" using ne by simp
  then show ?thesis
    unfolding sampleVariance_def sq
    by (auto simp: js_inf_def js_fl_def zero)
qed

lemma sharpe_guard:
  assumes "returns \<noteq> []"
    and "\<not> js_gt (js_fl fl (js_sqrt (sampleVariance fl (map (\<lambda>r. fl (r / 100)) returns)
              (fl (foldl (\<lambda>a b. fl (a + b)) 0 (map (\<lambda>r. fl (r / 100)) returns)
                 / real (length (map (\<lambda>r. fl (r / 100)) returns))))))) (Fin 0)"
  shows "metrics_sharpe (calculateMetricsForReturns fl parseDate returns riskFreeRate dates) = Fin 0"
  using assms by (simp add: calculateMetricsForReturns_def Let_def)

lemma sortino_guard:
  assumes "filter (\<lambda>ret. ret < fl ((case riskFreeRate of None \<Rightarrow> fl 0.02 | Some r \<Rightarrow> r)
                               / real (frequency_periods (detectFrequency parseDate returns dates))))
           (map (\<lambda>r. fl (r / 100)) returns) = []"
  shows "metrics_sortino (calculateMetricsForReturns fl parseDate returns riskFreeRate dates) = Fin 0"
  using assms by (simp add: calculateMetricsForReturns_def Let_def)

lemma beta_guard:
  assumes "length bs = length returns"
    and "\<not> js_gt (js_fl fl (js_div
            (Fin (foldl (\<lambda>acc ret. fl (acc + fl (fl (ret -
                     fl (foldl (\<lambda>a b. fl (a + b)) 0 (map (\<lambda>r. fl (r / 100)) bs)
                           / real (length (map (\<lambda>r. fl (r / 100)) bs)))) ^ 2))) 0
                   (map (\<lambda>r. fl (r / 100)) bs)))
            (Fin (real (length (map (\<lambda>r. fl (r / 100)) returns)) - 1)))) (Fin 0)"
  shows "additional_beta (calculateAdditionalMetrics fl parseDate returns (Some bs) dates) = Fin 0"
  using assms
  by (simp add: calculateAdditionalMetrics_def Let_def del: js_div.simps js_gt.simps)


text \<open>
  C9, as amended. For every rounding that fixes 0, fixes what it has rounded and is
  monotone, as the rounding of the doubles does, and for every return series: when the series
  has a single element, so that the divisor \<^verbatim>\<open>n - 1\<close> is 0 and the sample variance is
  \<^verbatim>\<open>NaN\<close>, or consists of zeros, so that the sample variance is 0, the Sharpe ratio is 0;
  when no return lies below the periodic risk-free rate the Sortino ratio is 0; with a
  benchmark of the same length that has a single element or consists of zeros, beta is 0.
  The functions are total: nothing raises. Constant series in general are left out, because
  their computed mean need not be their value; the Sortino ratio does not depend on the
  variance; and the claim's skewness and kurtosis are left out: the code divides them by a
  power of the variance with no guard.
\<close>

theorem degenerate_statistics_default_to_zero:
  assumes zero: "fl 0 = 0" and idem: "\<forall>x. fl (fl x) = fl x" and mono: "mono fl"
  shows "metrics_sharpe (calculateMetricsForReturns fl parseDate [r] riskFreeRate dates) = Fin 0
       \<and> metrics_sharpe (calculateMetricsForReturns fl parseDate (replicate n 0) riskFreeRate dates)
           = Fin 0
       \<and> ((\<forall>r \<in> set returns.
              (case riskFreeRate of None \<Rightarrow> fl 0.02 | Some rf \<Rightarrow> rf)
                / real (frequency_periods (detectFrequency parseDate returns dates)) \<le> r / 100) \<longrightarrow>
            metrics_sortino (calculateMetricsForReturns fl parseDate returns riskFreeRate dates) = Fin 0)
       \<and> additional_beta (calculateAdditionalMetrics fl parseDate [r] (Some [b]) dates) = Fin 0
       \<and> additional_beta (calculateAdditionalMetrics fl parseDate returns
                            (Some (replicate (length returns) 0)) dates) = Fin 0"
proof (intro conjI impI)
  let ?xs = "map (\<lambda>r. fl (r / 100)) [r]"
  have mean: "fl (foldl (\<lambda>a b. fl (a + b)) 0 ?xs / real (length ?xs)) = fl (r / 100)"
    using idem by simp
  have "sampleVariance fl ?xs (fl (r / 100)) = (if length ?xs = 1 then NaN else Fin 0)"
    using zero by (rule sampleVariance_at_mean) simp_all
  then have "\<not> js_gt (js_fl fl (js_sqrt (sampleVariance fl ?xs
                (fl (foldl (\<lambda>a b. fl (a + b)) 0 ?xs / real (length ?xs)))))) (Fin 0)"
    unfolding mean by (simp add: js_fl_def)
  then show "metrics_sharpe (calculateMetricsForReturns fl parseDate [r] riskFreeRate dates) = Fin 0"
    by (intro sharpe_guard) simp_all
next
  show "metrics_sharpe (calculateMetricsForReturns fl parseDate (replicate n 0) riskFreeRate dates)
          = Fin 0"
  proof (cases "n = 0")
    case True
    then show ?thesis by (simp add: calculateMetricsForReturns_def)
  next
    case False
    let ?xs = "map (\<lambda>r. fl (r / 100)) (replicate n (0::real))"
    have xs: "?xs = replicate n 0" using zero by simp
    have ne: "?xs \<noteq> []" using False by simp
    have sum: "foldl (\<lambda>a b. fl (a + b)) 0 (replicate n (0::real)) = 0"
      using rounded_sum_zero [where fl = fl and xs = "replicate n 0" and g = "\<lambda>x. x"] zero
      by simp
    have mean: "fl (foldl (\<lambda>a b. fl (a + b)) 0 ?xs / real (length ?xs)) = 0"
      unfolding xs sum using zero by simp
    have "sampleVariance fl ?xs 0 = (if length ?xs = 1 then NaN else Fin 0)"
      using zero ne by (rule sampleVariance_at_mean) (simp add: zero)
    then have "\<not> js_gt (js_fl fl (js_sqrt (sampleVariance fl ?xs
                  (fl (foldl (\<lambda>a b. fl (a + b)) 0 ?xs / real (length ?xs)))))) (Fin 0)"
      unfolding mean by (simp add: js_fl_def zero)
    then show ?thesis using False by (intro sharpe_guard) simp_all
  qed
next
  assume above: "\<forall>r \<in> set returns.
              (case riskFreeRate of None \<Rightarrow> fl 0.02 | Some rf \<Rightarrow> rf)
                / real (frequency_periods (detectFrequency parseDate returns dates)) \<le> r / 100"
  show "metrics_sortino (calculateMetricsForReturns fl parseDate returns riskFreeRate dates) = Fin 0"
  proof (rule sortino_guard)
    show "filter (\<lambda>ret. ret < fl ((case riskFreeRate of None \<Rightarrow> fl 0.02 | Some r \<Rightarrow> r)
                               / real (frequency_periods (detectFrequency parseDate returns dates))))
           (map (\<lambda>r. fl (r / 100)) returns) = []"
      using above monoD [OF mono] by (auto simp: filter_empty_conv not_less)
  qed
next
  let ?bs = "map (\<lambda>r. fl (r / 100)) [b]"
  have mean: "fl (foldl (\<lambda>a b. fl (a + b)) 0 ?bs / real (length ?bs)) = fl (b / 100)"
    using idem by simp
  show "additional_beta (calculateAdditionalMetrics fl parseDate [r] (Some [b]) dates) = Fin 0"
  proof (rule beta_guard)
    show "length [b] = length [r]" by simp
    show "\<not> js_gt (js_fl fl (js_div
            (Fin (foldl (\<lambda>acc ret. fl (acc + fl (fl (ret -
                     fl (foldl (\<lambda>a b. fl (a + b)) 0 ?bs / real (length ?bs))) ^ 2))) 0 ?bs))
            (Fin (real (length (map (\<lambda>r. fl (r / 100)) [r])) - 1)))) (Fin 0)"
      unfolding mean by (simp add: zero js_fl_def js_inf_def)
  qed
next
  let ?n = "length returns"
  let ?bs = "map (\<lambda>r. fl (r / 100)) (replicate ?n (0::real))"
  have bs: "?bs = replicate ?n 0" using zero by simp
  have sum: "foldl (\<lambda>a b. fl (a + b)) 0 (replicate ?n (0::real)) = 0"
    using rounded_sum_zero [where fl = fl and xs = "replicate ?n 0" and g = "\<lambda>x. x"] zero
    by simp
  have mean: "fl (foldl (\<lambda>a b. fl (a + b)) 0 ?bs / real (length ?bs)) = 0"
    unfolding bs sum using zero by simp
  have sq: "foldl (\<lambda>acc ret. fl (acc + fl (fl (ret - 0) ^ 2))) 0 (replicate ?n (0::real)) = 0"
    using rounded_sum_zero
      [where fl = fl and xs = "replicate ?n 0" and g = "\<lambda>ret. fl (fl (ret - 0) ^ 2)"] zero
    by simp
  show "additional_beta (calculateAdditionalMetrics fl parseDate returns
                           (Some (replicate ?n 0)) dates) = Fin 0"
  proof (rule beta_guard)
    show "length (replicate ?n (0::real)) = length returns" by simp
    show "\<not> js_gt (js_fl fl (js_div
            (Fin (foldl (\<lambda>acc ret. fl (acc + fl (fl (ret -
                     fl (foldl (\<lambda>a b. fl (a + b)) 0 ?bs / real (length ?bs))) ^ 2))) 0 ?bs))
            (Fin (real (length (map (\<lambda>r. fl (r / 100)) returns)) - 1)))) (Fin 0)"
      unfolding mean unfolding bs sq by (simp add: zero js_fl_def js_inf_def)
  qed
qed

theorem degenerate_statistics_default_to_zero_witness:
  "metrics_sharpe (calculateMetricsForReturns (\<lambda>x. x) unparsable [7] None None) = Fin 0
   \<and> metrics_sharpe (calculateMetricsForReturns (\<lambda>x. x) unparsable (replicate 3 0) None None)
       = Fin 0
   \<and> metrics_sortino (calculateMetricsForReturns (\<lambda>x. x) unparsable [3, 4] None None) = Fin 0
   \<and> additional_beta (calculateAdditionalMetrics (\<lambda>x. x) unparsable [7] (Some [4]) None) = Fin 0
   \<and> additional_beta (calculateAdditionalMetrics (\<lambda>x. x) unparsable [3, 4]
                        (Some (replicate (length [3, 4 :: real]) 0)) None) = Fin 0"
proof -
  have p: "frequency_periods (detectFrequency unparsable [3, 4] None) = 1"
    by (simp add: detectFrequency_def Let_def)
  show ?thesis
    using degenerate_statistics_default_to_zero
      [where fl = "\<lambda>x. x" and parseDate = unparsable and r = 7 and riskFreeRate = None
         and dates = None and n = 3 and returns = "[3, 4]" and b = 4]
    by (simp add: p mono_def)
qed

text \<open>
  The claim as stated fails, already in exact arithmetic: for the constant series 0, 0 and
  for the single-element series 5, skewness and kurtosis are \<^verbatim>\<open>NaN\<close>, not 0; for the
  constant series 0, 0, which lies below the default risk-free rate, the Sortino ratio is not
  0; and for the single-element series 5 the volatility is \<^verbatim>\<open>NaN\<close>.
\<close>

theorem skewness_kurtosis_undefined_for_constant_series:
  "additional_skewness (calculateAdditionalMetrics (\<lambda>x. x) unparsable [0, 0] None None) = NaN
   \<and> additional_kurtosis (calculateAdditionalMetrics (\<lambda>x. x) unparsable [0, 0] None None) = NaN
   \<and> additional_skewness (calculateAdditionalMetrics (\<lambda>x. x) unparsable [5] None None) = NaN
   \<and> additional_kurtosis (calculateAdditionalMetrics (\<lambda>x. x) unparsable [5] None None) = NaN
   \<and> metrics_sortino (calculateMetricsForReturns (\<lambda>x. x) unparsable [0, 0] None None) \<noteq> Fin 0
   \<and> metrics_volatility (calculateMetricsForReturns (\<lambda>x. x) unparsable [5] None None) = NaN"
  by (simp add: calculateAdditionalMetrics_def calculateMetricsForReturns_def sampleVariance_def
      detectFrequency_def Let_def js_inf_def js_sub_def js_fl_def)

section \<open>Properties of the Return Aggregator\<close>

lemma cumulativeLoop_inv:
  assumes "length result = i" and "i \<le> length returns"
    and "0 < i \<Longrightarrow> result ! (i - 1) = cumulative"
    and "i = 0 \<Longrightarrow> cumulative = 0"
  shows "length (cumulativeLoop returns i cumulative result) = length returns
       \<and> (\<forall>j < i. cumulativeLoop returns i cumulative result ! j = result ! j)
       \<and> (\<forall>j. i \<le> j \<and> j < length returns \<longrightarrow>
            cumulativeLoop returns i cumulative result ! j =
              (if j = 0 then 0
               else (1 + cumulativeLoop returns i cumulative result ! (j - 1) / 100)
                      * (1 + returns ! (j - 1) / 100) * 100 - 100))"
  using assms
proof (induction returns i cumulative result rule: cumulativeLoop.induct)
  case (1 returns i cumulative result)
  show ?case
  proof (cases "i < length returns")
    case False
    then have stop: "cumulativeLoop returns i cumulative result = result"
      by (subst cumulativeLoop.simps) simp
    show ?thesis unfolding stop using False "1.prems" by simp
  next
    case lt: True
    show ?thesis
    proof (cases "i = 0")
      case True
      with lt "1.prems" have res: "result = []" by simp
      have ih: "length (cumulativeLoop returns 1 cumulative [0]) = length returns
         \<and> (\<forall>j < 1. cumulativeLoop returns 1 cumulative [0] ! j = [0] ! j)
         \<and> (\<forall>j. 1 \<le> j \<and> j < length returns \<longrightarrow>
              cumulativeLoop returns 1 cumulative [0] ! j =
                (if j = 0 then 0
                 else (1 + cumulativeLoop returns 1 cumulative [0] ! (j - 1) / 100)
                        * (1 + returns ! (j - 1) / 100) * 100 - 100))"
        using "1.IH"(1)[OF lt True] lt True "1.prems" res by simp
      have unfold: "cumulativeLoop returns i cumulative result = cumulativeLoop returns 1 cumulative [0]"
        using lt True res by (subst cumulativeLoop.simps) simp
      show ?thesis unfolding unfold using ih True
        by (auto simp: less_Suc_eq_0_disj)
    next
      case False
      define c where "c = (1 + cumulative / 100) * (1 + returns ! (i - 1) / 100) * 100 - 100"
      have unfold: "cumulativeLoop returns i cumulative result
                  = cumulativeLoop returns (i + 1) c (result @ [c])"
        using lt False by (subst cumulativeLoop.simps) (simp add: c_def Let_def)
      have ih: "length (cumulativeLoop returns (i + 1) c (result @ [c])) = length returns
         \<and> (\<forall>j < i + 1. cumulativeLoop returns (i + 1) c (result @ [c]) ! j = (result @ [c]) ! j)
         \<and> (\<forall>j. i + 1 \<le> j \<and> j < length returns \<longrightarrow>
              cumulativeLoop returns (i + 1) c (result @ [c]) ! j =
                (if j = 0 then 0
                 else (1 + cumulativeLoop returns (i + 1) c (result @ [c]) ! (j - 1) / 100)
                        * (1 + returns ! (j - 1) / 100) * 100 - 100))"
        using "1.IH"(2)[OF lt False c_def] lt False "1.prems" by (simp add: nth_append)
      let ?out = "cumulativeLoop returns (i + 1) c (result @ [c])"
      have prev: "?out ! (i - 1) = cumulative"
        using ih False "1.prems" by (simp add: nth_append)
      have cur: "?out ! i = c"
        using ih "1.prems" by (simp add: nth_append)
      have old: "\<forall>j < i. ?out ! j = result ! j"
        using ih "1.prems" by (simp add: nth_append)
      have new: "\<forall>j. i \<le> j \<and> j < length returns \<longrightarrow>
              ?out ! j = (if j = 0 then 0
                 else (1 + ?out ! (j - 1) / 100) * (1 + returns ! (j - 1) / 100) * 100 - 100)"
      proof (intro allI impI)
        fix j assume j: "i \<le> j \<and> j < length returns"
        show "?out ! j = (if j = 0 then 0
                 else (1 + ?out ! (j - 1) / 100) * (1 + returns ! (j - 1) / 100) * 100 - 100)"
        proof (cases "j = i")
          case True
          then show ?thesis using cur prev False by (simp add: c_def)
        next
          case False
          with j have "i + 1 \<le> j \<and> j < length returns" by simp
          then show ?thesis using ih by blast
        qed
      qed
      show ?thesis unfolding unfold using ih old new by simp
    qed
  qed
qed

text \<open>
  C7. For every return series, \<open>calculateCumulativeReturns\<close> returns a series of the same
  length; when the series is not empty its first element is exactly 0; and for every
  \<open>i \<ge> 1\<close> the \<open>i\<close>-th element is
  \<open>(1 + cumulative[i-1]/100) * (1 + returns[i-1]/100) * 100 - 100\<close>: the chain links
  with the return of the prior period.
\<close>

theorem calculateCumulativeReturns_chain:
  "length (calculateCumulativeReturns returns) = length returns
   \<and> (returns \<noteq> [] \<longrightarrow> calculateCumulativeReturns returns ! 0 = 0)
   \<and> (\<forall>i. 1 \<le> i \<and> i < length returns \<longrightarrow>
         calculateCumulativeReturns returns ! i =
           (1 + calculateCumulativeReturns returns ! (i - 1) / 100)
             * (1 + returns ! (i - 1) / 100) * 100 - 100)"
proof (cases "returns = []")
  case True
  then show ?thesis by (simp add: calculateCumulativeReturns_def)
next
  case False
  have inv: "length (cumulativeLoop returns 0 0 []) = length returns
       \<and> (\<forall>j < 0. cumulativeLoop returns 0 0 [] ! j = [] ! j)
       \<and> (\<forall>j. 0 \<le> j \<and> j < length returns \<longrightarrow>
            cumulativeLoop returns 0 0 [] ! j =
              (if j = 0 then 0
               else (1 + cumulativeLoop returns 0 0 [] ! (j - 1) / 100)
                      * (1 + returns ! (j - 1) / 100) * 100 - 100))"
    by (rule cumulativeLoop_inv) simp_all
  have eq: "calculateCumulativeReturns returns = cumulativeLoop returns 0 0 []"
    using False by (simp add: calculateCumulativeReturns_def)
  show ?thesis unfolding eq using inv False by auto
qed

theorem calculateCumulativeReturns_chain_witness:
  "length (calculateCumulativeReturns [10, 20, 30]) = 3
   \<and> calculateCumulativeReturns [10, 20, 30] ! 0 = 0
   \<and> calculateCumulativeReturns [10, 20, 30] ! 2 =
       (1 + calculateCumulativeReturns [10, 20, 30] ! 1 / 100) * (1 + 20 / 100) * 100 - 100"
  using calculateCumulativeReturns_chain [of "[10, 20, 30]"] by simp

lemma portfolio_fold:
  "foldl (\<lambda>portfolioReturn (asset, weight).
            (case assetReturns asset of
               None \<Rightarrow> portfolioReturn
             | Some series \<Rightarrow>
                 (case elementAt series index of
                    None \<Rightarrow> portfolioReturn
                  | Some assetReturn \<Rightarrow> portfolioReturn + (weight / 100) * assetReturn)))
         acc (filter (\<lambda>(asset, weight). weight > 0 \<and> assetReturns asset \<noteq> None) weights)
   = acc + weightedSumAt weights assetReturns index"
proof (induction weights arbitrary: acc)
  case Nil
  show ?case by (simp add: weightedSumAt_def List.map_filter_simps)
next
  case (Cons p weights)
  obtain asset weight where p: "p = (asset, weight)" by (cases p)
  have split: "weightedSumAt (p # weights) assetReturns index =
     (if weight > 0 then (case valueAt assetReturns asset index of None \<Rightarrow> 0 | Some v \<Rightarrow> (weight / 100) * v) else 0)
      + weightedSumAt weights assetReturns index"
    by (simp add: weightedSumAt_def List.map_filter_simps p split: option.splits)
  show ?case unfolding split using Cons.IH
    by (simp add: p valueAt_def split: option.splits)
qed

lemma weightedSumAt_no_active:
  "filter (\<lambda>(asset, weight). weight > 0 \<and> assetReturns asset \<noteq> None) weights = [] \<Longrightarrow>
   weightedSumAt weights assetReturns index = 0"
  using portfolio_fold [where acc = 0 and weights = weights and assetReturns = assetReturns and index = index]
  by simp

lemma calculatePortfolioReturns_nonzero:
  assumes nz: "sum_list (map snd weights) \<noteq> 0"
  shows "calculatePortfolioReturns weights assetReturns indices =
           map (weightedSumAt weights assetReturns) indices"
proof (cases "filter (\<lambda>(asset, weight). weight > 0 \<and> assetReturns asset \<noteq> None) weights = []")
  case True
  then show ?thesis using nz
    by (simp add: calculatePortfolioReturns_def Let_def reduce_sum_list
        weightedSumAt_no_active)
next
  case False
  then show ?thesis using nz
    by (simp add: calculatePortfolioReturns_def Let_def reduce_sum_list portfolio_fold
        del: not_None_eq)
qed

text \<open>
  C6. \<open>calculatePortfolioReturns\<close> returns one value for each requested index. When the
  total weight is zero, or no asset has a positive weight and a series, every value is 0.
  Otherwise the value at an index is the sum, over the assets of positive weight with a
  defined value at that index, of weight/100 times the value: an asset whose value there is
  undefined is skipped. For the weight map A: 60, B: 40 and two series defined at the indices
  0 to 11, the value at every index \<open>i\<close> is \<open>0.6 * A[i] + 0.4 * B[i]\<close>.
\<close>

theorem calculatePortfolioReturns_spec:
  "length (calculatePortfolioReturns weights assetReturns indices) = length indices
   \<and> (sum_list (map snd weights) = 0
        \<or> filter (\<lambda>(asset, weight). weight > 0 \<and> assetReturns asset \<noteq> None) weights = []
      \<longrightarrow> calculatePortfolioReturns weights assetReturns indices = replicate (length indices) 0)
   \<and> (sum_list (map snd weights) \<noteq> 0
      \<longrightarrow> calculatePortfolioReturns weights assetReturns indices =
           map (weightedSumAt weights assetReturns) indices)
   \<and> (length a = 12 \<and> length b = 12
      \<longrightarrow> calculatePortfolioReturns [(''A'', 60), (''B'', 40)]
             [''A'' \<mapsto> map Some a, ''B'' \<mapsto> map Some b] [0 .. 11]
           = map (\<lambda>i. 0.6 * a ! nat i + 0.4 * b ! nat i) [0 .. 11])"
proof (intro conjI impI)
  show "length (calculatePortfolioReturns weights assetReturns indices) = length indices"
    by (simp add: calculatePortfolioReturns_def Let_def)
next
  assume "sum_list (map snd weights) = 0
        \<or> filter (\<lambda>(asset, weight). weight > 0 \<and> assetReturns asset \<noteq> None) weights = []"
  then show "calculatePortfolioReturns weights assetReturns indices = replicate (length indices) 0"
    by (auto simp: calculatePortfolioReturns_def Let_def reduce_sum_list map_replicate_const)
next
  assume nz: "sum_list (map snd weights) \<noteq> 0"
  show "calculatePortfolioReturns weights assetReturns indices =
           map (weightedSumAt weights assetReturns) indices"
    using nz by (rule calculatePortfolioReturns_nonzero)
next
  assume len: "length a = 12 \<and> length b = 12"
  let ?w = "[(''A'', 60), (''B'', 40)] :: weightMap"
  let ?r = "[''A'' \<mapsto> map Some a, ''B'' \<mapsto> map Some b]"
  have eq: "calculatePortfolioReturns ?w ?r [0 .. 11] = map (weightedSumAt ?w ?r) [0 .. 11]"
    by (rule calculatePortfolioReturns_nonzero) simp
  have "weightedSumAt ?w ?r i = 0.6 * a ! nat i + 0.4 * b ! nat i" if "i \<in> set [0 .. 11]" for i
  proof -
    from that have r: "0 \<le> i" "i < 12" by auto
    have ea: "elementAt (map Some a) i = Some (a ! nat i)"
      using r len by (simp add: elementAt_def)
    have eb: "elementAt (map Some b) i = Some (b ! nat i)"
      using r len by (simp add: elementAt_def)
    show ?thesis
      by (simp add: weightedSumAt_def List.map_filter_simps valueAt_def ea eb)
  qed
  then show "calculatePortfolioReturns ?w ?r [0 .. 11]
           = map (\<lambda>i. 0.6 * a ! nat i + 0.4 * b ! nat i) [0 .. 11]"
    unfolding eq by (intro map_cong refl) 
qed

theorem calculatePortfolioReturns_spec_witness:
  "calculatePortfolioReturns [(''X'', 0), (''Y'', 0)] [''X'' \<mapsto> [Some 1, Some 2]] [0, 1, 2] = [0, 0, 0]
   \<and> calculatePortfolioReturns [(''X'', 50), (''Y'', 25), (''Z'', 25)]
         [''X'' \<mapsto> [Some 4, None], ''Y'' \<mapsto> [Some 8, Some 12]] [0, 1, 2]
       = [4, 3, 0]
   \<and> calculatePortfolioReturns [(''A'', 60), (''B'', 40)]
         [''A'' \<mapsto> map Some [1, 2, 3, 4, 5, 6, 7, 8, 9, 10, 11, 12],
          ''B'' \<mapsto> map Some [12, 11, 10, 9, 8, 7, 6, 5, 4, 3, 2, 1]] [0 .. 11]
       = map (\<lambda>i. 0.6 * [1, 2, 3, 4, 5, 6, 7, 8, 9, 10, 11, 12] ! nat i
                   + 0.4 * [12, 11, 10, 9, 8, 7, 6, 5, 4, 3, 2, 1] ! nat i) [0 .. 11]"
proof -
  have z: "calculatePortfolioReturns [(''X'', 0), (''Y'', 0)] [''X'' \<mapsto> [Some 1, Some 2]] [0, 1, 2] = [0, 0, 0]"
    using calculatePortfolioReturns_spec
      [of "[(''X'', 0), (''Y'', 0)]" "[''X'' \<mapsto> [Some 1, Some 2]]" "[0, 1, 2]"]
    by simp
  have g: "calculatePortfolioReturns [(''X'', 50), (''Y'', 25), (''Z'', 25)]
         [''X'' \<mapsto> [Some 4, None], ''Y'' \<mapsto> [Some 8, Some 12]] [0, 1, 2]
       = [4, 3, 0]"
    using calculatePortfolioReturns_spec
      [of "[(''X'', 50), (''Y'', 25), (''Z'', 25)]"
          "[''X'' \<mapsto> [Some 4, None], ''Y'' \<mapsto> [Some 8, Some 12]]" "[0, 1, 2]"]
    by (simp add: weightedSumAt_def List.map_filter_simps valueAt_def elementAt_def)
  have s: "calculatePortfolioReturns [(''A'', 60), (''B'', 40)]
         [''A'' \<mapsto> map Some [1, 2, 3, 4, 5, 6, 7, 8, 9, 10, 11, 12],
          ''B'' \<mapsto> map Some [12, 11, 10, 9, 8, 7, 6, 5, 4, 3, 2, 1]] [0 .. 11]
       = map (\<lambda>i. 0.6 * [1, 2, 3, 4, 5, 6, 7, 8, 9, 10, 11, 12] ! nat i
                   + 0.4 * [12, 11, 10, 9, 8, 7, 6, 5, 4, 3, 2, 1] ! nat i) [0 .. 11]"
    using calculatePortfolioReturns_spec
      [where a = "[1, 2, 3, 4, 5, 6, 7, 8, 9, 10, 11, 12]"
         and b = "[12, 11, 10, 9, 8, 7, 6, 5, 4, 3, 2, 1]"]
    by simp
  show ?thesis using z g s by blast
qed

section \<open>Properties of the Weight Normalizer\<close>

lemma findLargest_fold:
  assumes "foldl (\<lambda>(largestAsset, largestWeight) (asset, weight).
              if weight > largestWeight then (Some asset, weight)
              else (largestAsset, largestWeight)) (a0, m0 :: real) normalized = (a, m)"
  shows "m0 \<le> m \<and> (\<forall>(k, v) \<in> set normalized. v \<le> m)
       \<and> ((a, m) = (a0, m0) \<or> (\<exists>k. a = Some k \<and> (k, m) \<in> set normalized))"
  using assms
proof (induction normalized arbitrary: a0 m0)
  case Nil
  then show ?case by simp
next
  case (Cons p normalized)
  obtain k v where p: "p = (k, v)" by (cases p)
  show ?case
  proof (cases "v > m0")
    case True
    with Cons.prems p have "foldl (\<lambda>(largestAsset, largestWeight) (asset, weight).
              if weight > largestWeight then (Some asset, weight)
              else (largestAsset, largestWeight)) (Some k, v) normalized = (a, m)"
      by simp
    from Cons.IH [OF this] True p show ?thesis by auto
  next
    case False
    with Cons.prems p have "foldl (\<lambda>(largestAsset, largestWeight) (asset, weight).
              if weight > largestWeight then (Some asset, weight)
              else (largestAsset, largestWeight)) (a0, m0) normalized = (a, m)"
      by simp
    from Cons.IH [OF this] False p show ?thesis by auto
  qed
qed

lemma findLargest_found:
  assumes "normalized \<noteq> []" and "\<forall>(k, v) \<in> set normalized. 0 \<le> v"
  obtains k m where "findLargest normalized = (Some k, m)" and "(k, m) \<in> set normalized"
    and "\<forall>(k', v) \<in> set normalized. v \<le> m"
proof -
  obtain a m where am: "findLargest normalized = (a, m)" by (cases "findLargest normalized")
  from findLargest_fold [OF am [unfolded findLargest_def]]
  have m: "- 1 \<le> m" and mx: "\<forall>(k, v) \<in> set normalized. v \<le> m"
    and alt: "(a, m) = (None, - 1) \<or> (\<exists>k. a = Some k \<and> (k, m) \<in> set normalized)"
    by auto
  from assms obtain k0 v0 where "(k0, v0) \<in> set normalized" "0 \<le> v0"
    by (cases normalized) auto
  with mx have "0 \<le> m" by fastforce
  with alt obtain k where "a = Some k" "(k, m) \<in> set normalized" by auto
  with am mx that show thesis by blast
qed

lemma updateAt_sum:
  assumes "distinct (map fst ws)" and "(k, v) \<in> set ws"
  shows "sum_list (map snd (updateAt k f ws)) = sum_list (map snd ws) - v + f v"
  using assms
proof (induction ws)
  case Nil
  then show ?case by simp
next
  case (Cons p ws)
  obtain k' v' where p: "p = (k', v')" by (cases p)
  show ?case
  proof (cases "k' = k")
    case True
    with Cons.prems p have v: "v' = v" and notin: "k \<notin> fst ` set ws"
      by (auto simp: rev_image_eqI)
    have same: "updateAt k f ws = ws"
      using notin unfolding updateAt_def
      by (induction ws) (auto simp: rev_image_eqI)
    have "updateAt k f (p # ws) = (k, f v) # updateAt k f ws"
      using True p v by (simp add: updateAt_def)
    then show ?thesis using same p v by simp
  next
    case False
    with Cons.prems p have "(k, v) \<in> set ws" "distinct (map fst ws)" by auto
    from Cons.IH [OF this(2) this(1)] False p show ?thesis
      by (simp add: updateAt_def)
  qed
qed

lemma updateAt_set:
  assumes "distinct (map fst ws)" and "(k, v) \<in> set ws" and "(k', v') \<in> set (updateAt k f ws)"
  shows "(k', v') \<in> set ws \<or> v' = f v"
proof -
  from assms(3) obtain u where u: "(k', u) \<in> set ws"
    and v': "v' = (if k' = k then f u else u)"
    unfolding updateAt_def by (auto split: if_splits)
  show ?thesis
  proof (cases "k' = k")
    case True
    with u assms(1,2) have "u = v" by (metis eq_key_imp_eq_value)
    with v' True show ?thesis by simp
  next
    case False
    with u v' show ?thesis by simp
  qed
qed

lemma updateAt_keys: "map fst (updateAt k f ws) = map fst ws"
  by (simp add: updateAt_def case_prod_unfold comp_def if_distrib)

text \<open>
  The normalizer of the optimizer on a map of non-negative weights with a positive sum: the
  rounded shares sum to a multiple of 0.1 within \<open>n/20\<close> of 100, the remainder goes to the
  largest of them, and with at most 45 assets the largest stays non-negative.
\<close>

lemma normalize_core:
  assumes dist: "distinct (map fst ws)"
    and keys: "[] \<notin> fst ` set ws"
    and nonneg: "\<forall>v \<in> set (map snd ws). 0 \<le> v"
    and pos: "sum_list (map snd ws) > 0"
    and len: "length ws \<le> 45"
  shows "sum_list (map snd (adjustedShares ws)) = 100
       \<and> (\<forall>v \<in> set (map snd (adjustedShares ws)). 0 \<le> v \<and> v \<le> 100)
       \<and> map fst (adjustedShares ws) = map fst ws"
proof -
  define S where "S = sum_list (map snd ws)"
  define ns where "ns = map (\<lambda>(asset, w). (asset, toFixed1 ((w / S) * 100))) ws"
  define R where "R = sum_list (map snd ns)"
  define d where "d = toFixed1 (100 - R)"
  have S: "S > 0" using pos by (simp add: S_def)
  have ne: "ws \<noteq> []" using pos by auto
  have ns_keys: "map fst ns = map fst ws"
    by (simp add: ns_def case_prod_unfold comp_def)
  have ns_vals: "map snd ns = map (\<lambda>w. toFixed1 ((w / S) * 100)) (map snd ws)"
    by (simp add: ns_def case_prod_unfold comp_def)
  have ns_dist: "distinct (map fst ns)" using dist ns_keys by simp
  have ns_ne: "ns \<noteq> []" using ne by (simp add: ns_def)
  have ns_len: "length ns = length ws" by (simp add: ns_def)
  have share: "0 \<le> (w / S) * 100 \<and> (w / S) * 100 \<le> 100" if "w \<in> set (map snd ws)" for w
  proof -
    have "0 \<le> w" using nonneg that by blast
    moreover have "w \<le> S" unfolding S_def using nonneg that by (rule member_le_sum_list_real)
    ultimately show ?thesis using S by (simp add: divide_le_eq)
  qed
  have ns_range: "\<forall>v \<in> set (map snd ns). 0 \<le> v \<and> v \<le> 100"
    unfolding ns_vals using share toFixed1_range by auto
  have ns_tenths: "\<forall>v \<in> set (map snd ns). tenths v"
    unfolding ns_vals using toFixed1_tenths by auto
  have R_tenths: "tenths R" unfolding R_def using ns_tenths by (rule tenths_sum_list)
  have d: "d = 100 - R"
    unfolding d_def using tenths_diff [OF tenths_100 R_tenths] by (rule toFixed1_of_tenths)
  have exact: "sum_list (map (\<lambda>w. (w / S) * 100) (map snd ws)) = 100"
  proof -
    have "sum_list (map (\<lambda>w. w * (100 / S)) (map snd ws)) = sum_list (map snd ws) * (100 / S)"
      by (rule sum_list_scale)
    then show ?thesis using S by (simp add: S_def)
  qed
  have "\<bar>sum_list (map (\<lambda>w. toFixed1 ((w / S) * 100)) (map snd ws))
          - sum_list (map (\<lambda>w. (w / S) * 100) (map snd ws))\<bar>
        \<le> real (length (map snd ws)) * (1 / 20)"
    by (rule sum_list_error) (rule ballI, rule toFixed1_error)
  then have R_near: "\<bar>R - 100\<bar> \<le> real (length ws) / 20"
    unfolding R_def ns_vals exact by simp
  have unfold: "adjustedShares ws =
     (if \<bar>d\<bar> > 0 then
        (case findLargest ns of
           (Some largestAsset, largestWeight) \<Rightarrow>
             if largestAsset \<noteq> [] then updateAt largestAsset (\<lambda>v. toFixed1 (v + d)) ns else ns
         | (None, largestWeight) \<Rightarrow> ns)
      else ns)"
    unfolding adjustedShares_def roundedShares_def Let_def d_def R_def ns_def S_def
    by (rule refl)
  show ?thesis
  proof (cases "\<bar>d\<bar> > 0")
    case False
    then have "R = 100" using d by simp
    moreover have "adjustedShares ws = ns" using False unfold by simp
    ultimately show ?thesis using ns_range ns_keys R_def by simp
  next
    case True
    have "\<forall>(k, v) \<in> set ns. 0 \<le> v" using ns_range by auto
    with ns_ne obtain k m where fl: "findLargest ns = (Some k, m)" and km: "(k, m) \<in> set ns"
      and mx: "\<forall>(k', v) \<in> set ns. v \<le> m"
      by (rule findLargest_found)
    have "k \<in> fst ` set ws" using km ns_keys by (metis fst_conv image_eqI list.set_map)
    then have k: "k \<noteq> []" using keys by blast
    have out: "adjustedShares ws = updateAt k (\<lambda>v. toFixed1 (v + d)) ns"
      using True unfold fl k by simp
    have m_in: "m \<in> set (map snd ns)" using km by force
    have m_tenths: "tenths m" using ns_tenths m_in by blast
    have md: "toFixed1 (m + d) = m + d"
      unfolding d using tenths_add [OF m_tenths tenths_diff [OF tenths_100 R_tenths]]
      by (rule toFixed1_of_tenths)
    have total: "sum_list (map snd (updateAt k (\<lambda>v. toFixed1 (v + d)) ns)) = 100"
      using updateAt_sum [OF ns_dist km, of "\<lambda>v. toFixed1 (v + d)"] md d R_def by simp
    have m_le_R: "m \<le> R"
      unfolding R_def using ns_range m_in by (intro member_le_sum_list_real) auto
    have m_nonneg: "0 \<le> m" using ns_range m_in by blast
    have "R \<le> real (length (map snd ns)) * m"
      unfolding R_def using mx by (intro sum_list_le_length_max) auto
    then have R_le: "R \<le> real (length ws) * m" using ns_len by simp
    have n45: "real (length ws) \<le> 45" using len by simp
    have "real (length ws) * m \<le> 45 * m" using n45 m_nonneg by (rule mult_right_mono)
    with R_le have R45: "R \<le> 45 * m" by simp
    have "R - 100 \<le> 45 / 20" using R_near n45 by linarith
    then have lower: "0 \<le> m + d" using R45 d by linarith
    have upper: "m + d \<le> 100" using d m_le_R by simp
    have range: "\<forall>v \<in> set (map snd (updateAt k (\<lambda>v. toFixed1 (v + d)) ns)). 0 \<le> v \<and> v \<le> 100"
    proof
      fix v assume "v \<in> set (map snd (updateAt k (\<lambda>v. toFixed1 (v + d)) ns))"
      then obtain k' where "(k', v) \<in> set (updateAt k (\<lambda>v. toFixed1 (v + d)) ns)" by auto
      from updateAt_set [OF ns_dist km this]
      have "(k', v) \<in> set ns \<or> v = m + d" using md by simp
      then show "0 \<le> v \<and> v \<le> 100"
      proof
        assume "(k', v) \<in> set ns"
        then have "v \<in> set (map snd ns)" by force
        then show ?thesis using ns_range by blast
      next
        assume "v = m + d"
        then show ?thesis using lower upper by simp
      qed
    qed
    have "map fst (updateAt k (\<lambda>v. toFixed1 (v + d)) ns) = map fst ns"
      by (simp add: updateAt_def case_prod_unfold comp_def if_distrib)
    then show ?thesis using total range ns_keys unfolding out by simp
  qed
qed

text \<open>
  An object built by assignment has every key when none of them is \<^verbatim>\<open>__proto__\<close>.
\<close>

lemma assignedObject_id:
  assumes "''__proto__'' \<notin> fst ` set entries"
  shows "assignedObject entries = entries"
  unfolding assignedObject_def using assms by (induction entries) auto

lemma assignedObject_map:
  assumes "''__proto__'' \<notin> fst ` set ws"
  shows "assignedObject (map (\<lambda>(asset, w). (asset, f asset w)) ws)
       = map (\<lambda>(asset, w). (asset, f asset w)) ws"
  by (rule assignedObject_id) (use assms in \<open>force simp: image_iff\<close>)

lemma optimizer_normalizeWeights_positive:
  assumes pos: "sum_list (map snd ws) > 0"
    and proto: "''__proto__'' \<notin> fst ` set ws"
  shows "optimizer_normalizeWeights ws = adjustedShares ws"
proof -
  have ao: "assignedObject
              (map (\<lambda>(asset, w). (asset, toFixed1 ((w / sum_list (map snd ws)) * 100))) ws)
          = roundedShares ws"
    unfolding roundedShares_def
    using assignedObject_map [OF proto, of "\<lambda>asset w. toFixed1 ((w / sum_list (map snd ws)) * 100)"]
    by simp
  show ?thesis
    unfolding optimizer_normalizeWeights_def adjustedShares_def Let_def reduce_sum_list add_0 ao
    using pos by (simp only: if_True)
qed

lemma reduce_parseFloat:
  "foldl (\<lambda>a b. a + parseFloat b) acc vs = acc + sum_list (map parseFloat vs)"
  by (induction vs arbitrary: acc) simp_all

lemma numericWeights_updateValueAt:
  "numericWeights (updateValueAt k (\<lambda>v. NumberValue (g (parseFloat v))) ws)
   = updateAt k g (numericWeights ws)"
  by (induction ws) (auto simp: numericWeights_def updateValueAt_def updateAt_def)

text \<open>
  When the sum is positive the standalone normalizer computes these numbers; it returns them
  as strings, except for the adjusted holding. It works on a copy of its argument, which has
  every key of it.
\<close>

lemma normalizeWeights_positive:
  assumes "sum_list (map snd ws) > 0"
  shows "numericWeights (normalizeWeights ws) = adjustedShares ws"
proof -
  define S where "S = sum_list (map snd ws)"
  define rounded where
    "rounded = map (\<lambda>(asset, w). (asset, FixedString (toFixed1 ((w / S) * 100)))) ws"
  define ns where "ns = map (\<lambda>(asset, w). (asset, toFixed1 ((w / S) * 100))) ws"
  define d where "d = toFixed1 (100 - sum_list (map snd ns))"
  have S: "S > 0" using assms by (simp add: S_def)
  have num: "numericWeights rounded = ns"
    by (simp add: numericWeights_def rounded_def ns_def case_prod_unfold comp_def)
  have vals: "map parseFloat (map snd rounded) = map snd ns"
    by (simp add: rounded_def ns_def case_prod_unfold comp_def)
  have copy: "map (\<lambda>(asset, v). (asset, FixedString (toFixed1 ((parseFloat v / S) * 100))))
                (map (\<lambda>(asset, w). (asset, NumberValue w)) ws) = rounded"
    by (simp add: rounded_def case_prod_unfold comp_def)
  have copysum: "sum_list (map parseFloat (map snd (map (\<lambda>(asset, w). (asset, NumberValue w)) ws))) = S"
    by (simp add: S_def case_prod_unfold comp_def)
  have lhs: "normalizeWeights ws =
     (if S > 0 then
        (if \<bar>d\<bar> > 0 then
           (case findLargest (numericWeights rounded) of
              (Some largestAsset, largestWeight) \<Rightarrow>
                if largestAsset \<noteq> [] then
                  updateValueAt largestAsset (\<lambda>v. NumberValue (toFixed1 (parseFloat v + d))) rounded
                else rounded
            | (None, largestWeight) \<Rightarrow> rounded)
         else rounded)
      else map (\<lambda>(asset, w). (asset, NumberValue w)) ws)"
    unfolding normalizeWeights_def Let_def reduce_parseFloat add_0 copysum copy vals
      d_def numericWeights_def
    by (rule refl)
  have rhs: "adjustedShares ws =
     (if \<bar>d\<bar> > 0 then
        (case findLargest ns of
           (Some largestAsset, largestWeight) \<Rightarrow>
             if largestAsset \<noteq> [] then updateAt largestAsset (\<lambda>v. toFixed1 (v + d)) ns
             else ns
         | (None, largestWeight) \<Rightarrow> ns)
      else ns)"
    unfolding adjustedShares_def roundedShares_def Let_def d_def ns_def S_def
    by (rule refl)
  show ?thesis
    unfolding lhs rhs using S
    by (simp add: num numericWeights_updateValueAt [where g = "\<lambda>v. toFixed1 (v + d)"]
        split: prod.splits option.splits)
qed

text \<open>
  So the two normalizers agree numerically on weights of positive sum none of whose keys is
  \<^verbatim>\<open>__proto__\<close>.
\<close>

lemma normalizers_agree_numerically:
  assumes "sum_list (map snd ws) > 0" and "''__proto__'' \<notin> fst ` set ws"
  shows "numericWeights (normalizeWeights ws) = optimizer_normalizeWeights ws"
  using normalizeWeights_positive [OF assms(1)] optimizer_normalizeWeights_positive [OF assms]
  by simp

text \<open>
  C4. The claim: the standalone normalizer and the normalizer of the optimizer return
  identical results, and both distribute a zero sum equally. For the weight map A: 0, B: 0
  the standalone normalizer returns the map unchanged, while the normalizer of the optimizer
  returns A: 50, B: 50: the standalone function has no branch for a sum that is not positive.
\<close>

theorem normalizers_differ_on_zero_sum:
  "normalizeWeights [(''A'', 0), (''B'', 0)] = [(''A'', NumberValue 0), (''B'', NumberValue 0)]
   \<and> optimizer_normalizeWeights [(''A'', 0), (''B'', 0)] = [(''A'', 50), (''B'', 50)]"
  by (simp add: normalizeWeights_def optimizer_normalizeWeights_def assignedObject_def
      toFixed1_def Let_def)

text \<open>
  C5, as amended. For every weight map with distinct, non-empty asset ids, non-negative
  weights, a positive sum and at most 45 assets, the output of the standalone normalizer sums
  to 100 within 0.05 (in exact arithmetic, to 100) and every output weight lies in [0,100].
\<close>

theorem normalizeWeights_postcondition:
  assumes dist: "distinct (map fst ws)"
    and keys: "[] \<notin> fst ` set ws"
    and nonneg: "\<forall>v \<in> set (map snd ws). 0 \<le> v"
    and pos: "sum_list (map snd ws) > 0"
    and len: "length ws \<le> 45"
  shows "normalizerPostcondition (normalizeWeights ws)"
proof -
  have agree: "numericWeights (normalizeWeights ws) = adjustedShares ws"
    using pos by (rule normalizeWeights_positive)
  have vals: "map parseFloat (map snd (normalizeWeights ws))
            = map snd (numericWeights (normalizeWeights ws))"
    by (simp add: numericWeights_def case_prod_unfold comp_def)
  from normalize_core [OF dist keys nonneg pos len]
  have "sum_list (map snd (adjustedShares ws)) = 100"
    and "\<forall>v \<in> set (map snd (adjustedShares ws)). 0 \<le> v \<and> v \<le> 100"
    by simp_all
  then have "sum_list (map parseFloat (map snd (normalizeWeights ws))) = 100"
    and "\<forall>v \<in> set (map parseFloat (map snd (normalizeWeights ws))). 0 \<le> v \<and> v \<le> 100"
    unfolding vals agree by simp_all
  then show ?thesis
    unfolding normalizerPostcondition_def by (simp add: list_all_iff)
qed

theorem normalizeWeights_postcondition_witness:
  "normalizerPostcondition (normalizeWeights [(''A'', 45.5), (''B'', 30.2), (''C'', 24.1)])"
proof -
  have dist: "distinct (map fst [(''A'', 45.5 :: real), (''B'', 30.2), (''C'', 24.1)])" by simp
  have keys: "[] \<notin> fst ` set [(''A'', 45.5 :: real), (''B'', 30.2), (''C'', 24.1)]" by simp
  have nonneg: "\<forall>v \<in> set (map snd [(''A'', 45.5 :: real), (''B'', 30.2), (''C'', 24.1)]). 0 \<le> v"
    by simp
  have pos: "sum_list (map snd [(''A'', 45.5 :: real), (''B'', 30.2), (''C'', 24.1)]) > 0" by simp
  have len: "length [(''A'', 45.5 :: real), (''B'', 30.2), (''C'', 24.1)] \<le> 45" by simp
  show ?thesis by (rule normalizeWeights_postcondition [OF dist keys nonneg pos len])
qed

text \<open>
  The claim as stated, for every weight map, fails: the normalizer clamps nothing and gives
  the whole rounding remainder to one holding. A: 150, B: -50 comes back as it is, outside
  [0,100]. Sixty equal weights are rounded up to 1.7 each, and the remainder -2 takes the
  first of them to -0.3. With the empty string as the id of the largest holding the remainder
  is dropped: three equal weights come back as 33.3 each, with the sum 99.9.
\<close>

theorem normalizeWeights_unguarded_inputs:
  "\<not> normalizerPostcondition (normalizeWeights [(''A'', 150), (''B'', - 50)])
   \<and> \<not> normalizerPostcondition (normalizeWeights sixtyEqual)
   \<and> \<not> normalizerPostcondition (normalizeWeights [([], 1), (''B'', 1), (''C'', 1)])"
  by code_simp

section \<open>Properties of the Local-Search Optimizer\<close>

subsection \<open>Objective values\<close>

lemma calculateObjectiveFunction_nonzero:
  assumes "calculateMetrics weights = Returns (Some metrics)"
  shows "(metrics_sharpe metrics = Some x \<and> x \<noteq> 0 \<longrightarrow>
            calculateObjectiveFunction weights ''sharpe'' calculateMetrics = x)
       \<and> (metrics_volatility metrics = Some x \<and> x \<noteq> 0 \<longrightarrow>
            calculateObjectiveFunction weights ''risk'' calculateMetrics = - x)
       \<and> (metrics_sortino metrics = Some x \<and> x \<noteq> 0 \<longrightarrow>
            calculateObjectiveFunction weights ''sortino'' calculateMetrics = x)
       \<and> (metrics_cvar metrics = Some x \<and> x \<noteq> 0 \<longrightarrow>
            calculateObjectiveFunction weights ''cvar'' calculateMetrics = - \<bar>x\<bar>)"
  using assms by (simp add: calculateObjectiveFunction_def orElse_def)

lemma calculateObjectiveFunction_Throws:
  "calculateMetrics weights = Throws \<Longrightarrow>
   calculateObjectiveFunction weights objective calculateMetrics
     = (if objective = ''risk'' then 999 else - 999)"
  by (simp add: calculateObjectiveFunction_def)

text \<open>
  C3. The claim: a defined metric, 0 included, is mapped by the formula, and only a missing
  metric is replaced by the penalty. For a non-zero metric the formula holds
  (\<open>calculateObjectiveFunction_nonzero\<close>). A metric that is 0 is falsy, and
  \<^verbatim>\<open>metrics.sharpe || -999\<close> replaces it by the penalty as well: with every metric
  defined and 0, each of the four objectives evaluates to -999, where the claim says 0.
\<close>

theorem calculateObjectiveFunction_zero_metric:
  "calculateObjectiveFunction [(''A'', 60), (''B'', 40)] ''sharpe'' zeroMetrics = - 999
   \<and> calculateObjectiveFunction [(''A'', 60), (''B'', 40)] ''risk'' zeroMetrics = - 999
   \<and> calculateObjectiveFunction [(''A'', 60), (''B'', 40)] ''sortino'' zeroMetrics = - 999
   \<and> calculateObjectiveFunction [(''A'', 60), (''B'', 40)] ''cvar'' zeroMetrics = - 999"
  by (simp add: calculateObjectiveFunction_def zeroMetrics_def orElse_def)

subsection \<open>The search loop\<close>

lemma searchLoop_invariant:
  assumes "P s"
    and "\<And>t t'. P t \<Longrightarrow>
           searchStep stepSize turnoverLimitPercent objective calculateMetrics t = Continue t'
           \<Longrightarrow> P t'"
  shows "P (searchLoop maxIterations maxStagnation stepSize turnoverLimitPercent objective
              calculateMetrics s)"
  using assms
proof (induction maxIterations maxStagnation stepSize turnoverLimitPercent objective
    calculateMetrics s rule: searchLoop.induct)
  case (1 maxIterations maxStagnation stepSize turnoverLimitPercent objective calculateMetrics s)
  show ?case
  proof (cases "int (iteration s) < maxIterations \<and> real (stagnationCount s) < maxStagnation")
    case False
    have "searchLoop maxIterations maxStagnation stepSize turnoverLimitPercent objective
                 calculateMetrics s = s"
      by (subst searchLoop.simps) (simp only: False if_False)
    then show ?thesis using "1.prems"(1) by simp
  next
    case True
    show ?thesis
    proof (cases "searchStep stepSize turnoverLimitPercent objective calculateMetrics s")
      case Break
      have "searchLoop maxIterations maxStagnation stepSize turnoverLimitPercent objective
                   calculateMetrics s = s"
        by (subst searchLoop.simps) (simp only: True if_True simp_thms Break loopStep.case)
      then show ?thesis using "1.prems"(1) by simp
    next
      case (Continue s')
      have eq: "searchLoop maxIterations maxStagnation stepSize turnoverLimitPercent objective
                   calculateMetrics s
                 = searchLoop maxIterations maxStagnation stepSize turnoverLimitPercent objective
                   calculateMetrics s'"
        by (subst searchLoop.simps) (simp only: True if_True simp_thms Continue loopStep.case)
      have "P s'" using "1.prems"(2) [OF "1.prems"(1) Continue] .
      from "1.IH" [OF True Continue this "1.prems"(2)] show ?thesis unfolding eq by simp
    qed
  qed
qed

lemma scanDecrease_Some:
  assumes "scanDecrease stepSize turnoverLimitPercent objective calculateMetrics s asset
             assetsToDecrease = Some (decreaseAsset, newWeights, newMetric)"
  shows "newWeights = updateAt decreaseAsset (\<lambda>v. v - stepSize)
                        (updateAt asset (\<lambda>v. v + stepSize) (currentWeights s))
       \<and> isValidWeightAllocation newWeights
       \<and> newMetric = calculateObjectiveFunction newWeights objective calculateMetrics
       \<and> newMetric > bestMetric s"
  using assms
  by (induction assetsToDecrease)
     (auto simp: Let_def isMetricImprovement_def split: if_splits)

lemma scanIncrease_Some:
  assumes "scanIncrease stepSize turnoverLimitPercent objective calculateMetrics s
             assetsToIncrease assetsToDecrease = Some (asset, decreaseAsset, newWeights, newMetric)"
  shows "newWeights = updateAt decreaseAsset (\<lambda>v. v - stepSize)
                        (updateAt asset (\<lambda>v. v + stepSize) (currentWeights s))
       \<and> isValidWeightAllocation newWeights
       \<and> newMetric = calculateObjectiveFunction newWeights objective calculateMetrics
       \<and> newMetric > bestMetric s"
  using assms
proof (induction assetsToIncrease)
  case Nil
  then show ?case by simp
next
  case (Cons a rest)
  show ?case
  proof (cases "scanDecrease stepSize turnoverLimitPercent objective calculateMetrics s a
                  assetsToDecrease")
    case None
    with Cons.prems have "scanIncrease stepSize turnoverLimitPercent objective calculateMetrics s
             rest assetsToDecrease = Some (asset, decreaseAsset, newWeights, newMetric)"
      by (simp split: if_splits)
    then show ?thesis by (rule Cons.IH)
  next
    case (Some r)
    obtain d nw nm where r: "r = (d, nw, nm)" by (cases r)
    show ?thesis
    proof (cases "\<bar>valueOf (totalChanges s) a\<bar> < turnoverLimitPercent
         \<and> valueOf (currentWeights s) a < 100
         \<and> valueOf (currentWeights s) a + stepSize \<le> 100")
      case True
      with Cons.prems Some r have "a = asset" "d = decreaseAsset" "nw = newWeights" "nm = newMetric"
        by simp_all
      with scanDecrease_Some [OF Some [unfolded r]] show ?thesis by blast
    next
      case False
      with Cons.prems have "scanIncrease stepSize turnoverLimitPercent objective calculateMetrics s
             rest assetsToDecrease = Some (asset, decreaseAsset, newWeights, newMetric)"
        by simp
      then show ?thesis by (rule Cons.IH)
    qed
  qed
qed

text \<open>
  What one pass of the loop body can do to the state.
\<close>

lemma searchStep_Continue:
  assumes "searchStep stepSize turnoverLimitPercent objective calculateMetrics s = Continue s'"
  shows "(currentWeights s' = currentWeights s \<and> bestWeights s' = bestWeights s
            \<and> bestMetric s' = bestMetric s)
       \<or> (\<exists>asset decreaseAsset.
             currentWeights s' = updateAt decreaseAsset (\<lambda>v. v - stepSize)
                                   (updateAt asset (\<lambda>v. v + stepSize) (currentWeights s))
           \<and> bestWeights s' = currentWeights s'
           \<and> isValidWeightAllocation (currentWeights s')
           \<and> bestMetric s' = calculateObjectiveFunction (currentWeights s') objective calculateMetrics
           \<and> bestMetric s' > bestMetric s)"
proof -
  let ?gradients = "calculateGradients (currentWeights s) stepSize objective calculateMetrics"
  let ?sorted = "sort_key (\<lambda>asset. - valueOf ?gradients asset) (map fst ?gradients)"
  let ?inc = "filter (\<lambda>asset. valueOf ?gradients asset > 0) ?sorted"
  let ?dec = "filter (\<lambda>asset. valueOf ?gradients asset < 0) ?sorted"
  show ?thesis
  proof (cases "scanIncrease stepSize turnoverLimitPercent objective calculateMetrics s ?inc ?dec")
    case None
    with assms show ?thesis
      unfolding searchStep_def Let_def by (auto split: if_splits)
  next
    case (Some r)
    obtain a d nw nm where r: "r = (a, d, nw, nm)" by (cases r)
    from scanIncrease_Some [OF Some [unfolded r]]
    have props: "nw = updateAt d (\<lambda>v. v - stepSize) (updateAt a (\<lambda>v. v + stepSize) (currentWeights s))"
      "isValidWeightAllocation nw"
      "nm = calculateObjectiveFunction nw objective calculateMetrics"
      "nm > bestMetric s"
      by blast+
    from assms Some r have "(currentWeights s' = currentWeights s \<and> bestWeights s' = bestWeights s
            \<and> bestMetric s' = bestMetric s)
        \<or> (currentWeights s' = nw \<and> bestWeights s' = nw \<and> bestMetric s' = nm)"
      unfolding searchStep_def Let_def by (auto split: if_splits)
    then show ?thesis
    proof
      assume "currentWeights s' = currentWeights s \<and> bestWeights s' = bestWeights s
            \<and> bestMetric s' = bestMetric s"
      then show ?thesis by (rule disjI1)
    next
      assume moved: "currentWeights s' = nw \<and> bestWeights s' = nw \<and> bestMetric s' = nm"
      have "currentWeights s' = updateAt d (\<lambda>v. v - stepSize)
                                   (updateAt a (\<lambda>v. v + stepSize) (currentWeights s))
           \<and> bestWeights s' = currentWeights s'
           \<and> isValidWeightAllocation (currentWeights s')
           \<and> bestMetric s' = calculateObjectiveFunction (currentWeights s') objective calculateMetrics
           \<and> bestMetric s' > bestMetric s"
        using moved props by simp
      then show ?thesis by blast
    qed
  qed
qed

lemma isValid_sum_list:
  "isValidWeightAllocation ws \<longleftrightarrow>
     (\<forall>v \<in> set (map snd ws). 0 \<le> v \<and> v \<le> 100) \<and> \<bar>sum_list (map snd ws) - 100\<bar> < 1 / 100"
  unfolding isValidWeightAllocation_def Let_def reduce_sum_list list_all_iff by auto

lemma searchInv_step:
  assumes "searchInv ws t"
    and "searchStep stepSize turnoverLimitPercent objective calculateMetrics t = Continue t'"
  shows "searchInv ws t'"
  using searchStep_Continue [OF assms(2)] assms(1)
  unfolding searchInv_def by (auto simp: updateAt_keys)

lemma best_weights_reachable:
  "searchInv ws
     (searchLoop maxIterations maxStagnation stepSize turnoverLimitPercent objective calculateMetrics
        \<lparr> currentWeights = ws, bestMetric = m, bestWeights = ws, totalChanges = tc,
          iteration = 0, stagnationCount = 0 \<rparr>)"
  by (rule searchLoop_invariant [where P = "searchInv ws"])
     (simp add: searchInv_def, erule (1) searchInv_step)

text \<open>
  C1, as amended. For every input weight map with distinct asset ids none of which is the
  empty string or \<^verbatim>\<open>__proto__\<close>, with non-negative weights, a positive sum and at most
  45 assets, and for every objective, callback, turnover limit and constructed optimizer,
  \<open>gradientDescentOptimization\<close> returns with \<^verbatim>\<open>success = true\<close> and the returned
  weights satisfy the validity predicate: every weight in [0,100], the sum within 0.01 of 100.
\<close>

theorem gradientDescentOptimization_valid_weights:
  assumes dist: "distinct (map fst ws)"
    and keys: "[] \<notin> fst ` set ws"
    and proto: "''__proto__'' \<notin> fst ` set ws"
    and nonneg: "\<forall>v \<in> set (map snd ws). 0 \<le> v"
    and pos: "sum_list (map snd ws) > 0"
    and len: "length ws \<le> 45"
  shows "success (gradientDescentOptimization (newPortfolioOptimizer options) (Some ws)
                    objective calculateMetrics turnoverLimit)
       \<and> isValidWeightAllocation
           (result_weights (gradientDescentOptimization (newPortfolioOptimizer options) (Some ws)
                              objective calculateMetrics turnoverLimit))"
proof -
  let ?opt = "newPortfolioOptimizer options"
  let ?limit = "(case turnoverLimit of None \<Rightarrow> 1 | Some limit \<Rightarrow> limit) :: real"
  let ?m = "calculateObjectiveFunction ws objective calculateMetrics"
  define t where "t = searchLoop \<lfloor>?limit / this_stepSize ?opt\<rfloor> (this_maxStagnation ?opt)
       (this_stepSize ?opt) ?limit objective calculateMetrics
       \<lparr> currentWeights = ws, bestMetric = ?m, bestWeights = ws,
         totalChanges = assignedObject (map (\<lambda>(asset, w). (asset, 0)) ws), iteration = 0,
         stagnationCount = 0 \<rparr>"
  have res: "gradientDescentOptimization ?opt (Some ws) objective calculateMetrics turnoverLimit
           = Success (optimizer_normalizeWeights (bestWeights t)) ?m (bestMetric t) (iteration t)
               (bestMetric t - ?m)"
    unfolding gradientDescentOptimization_def t_def by (simp add: Let_def)
  have inv: "searchInv ws t" unfolding t_def by (rule best_weights_reachable)
  then have bkeys: "map fst (bestWeights t) = map fst ws"
    and alt: "bestWeights t = ws \<or> isValidWeightAllocation (bestWeights t)"
    unfolding searchInv_def by simp_all
  have b_dist: "distinct (map fst (bestWeights t))" using dist bkeys by simp
  have "fst ` set (bestWeights t) = fst ` set ws"
    using bkeys by (metis list.set_map)
  then have b_keys: "[] \<notin> fst ` set (bestWeights t)"
    and b_proto: "''__proto__'' \<notin> fst ` set (bestWeights t)"
    using keys proto by simp_all
  have "length (bestWeights t) = length ws" using bkeys by (metis length_map)
  then have b_len: "length (bestWeights t) \<le> 45" using len by simp
  have b_nonneg: "\<forall>v \<in> set (map snd (bestWeights t)). 0 \<le> v"
    using alt nonneg by (auto simp: isValid_sum_list)
  have b_pos: "sum_list (map snd (bestWeights t)) > 0"
  proof (rule disjE [OF alt])
    assume "bestWeights t = ws"
    then show ?thesis using pos by simp
  next
    assume "isValidWeightAllocation (bestWeights t)"
    then have "\<bar>sum_list (map snd (bestWeights t)) - 100\<bar> < 1 / 100"
      by (simp add: isValid_sum_list)
    then show ?thesis by linarith
  qed
  have "optimizer_normalizeWeights (bestWeights t) = adjustedShares (bestWeights t)"
    using b_pos b_proto by (rule optimizer_normalizeWeights_positive)
  with normalize_core [OF b_dist b_keys b_nonneg b_pos b_len]
  have "isValidWeightAllocation (optimizer_normalizeWeights (bestWeights t))"
    by (simp add: isValid_sum_list)
  then show ?thesis unfolding res by (simp add: success_def)
qed

theorem gradientDescentOptimization_valid_weights_witness:
  "success (gradientDescentOptimization (newPortfolioOptimizer defaultOptions)
              (Some [(''A'', 45.5), (''B'', 30.2), (''C'', 24.1)]) ''sharpe'' cliffCallback None)
   \<and> isValidWeightAllocation
       (result_weights (gradientDescentOptimization (newPortfolioOptimizer defaultOptions)
              (Some [(''A'', 45.5), (''B'', 30.2), (''C'', 24.1)]) ''sharpe'' cliffCallback None))"
proof -
  have dist: "distinct (map fst [(''A'', 45.5 :: real), (''B'', 30.2), (''C'', 24.1)])" by simp
  have keys: "[] \<notin> fst ` set [(''A'', 45.5 :: real), (''B'', 30.2), (''C'', 24.1)]" by simp
  have proto: "''__proto__'' \<notin> fst ` set [(''A'', 45.5 :: real), (''B'', 30.2), (''C'', 24.1)]"
    by simp
  have nonneg: "\<forall>v \<in> set (map snd [(''A'', 45.5 :: real), (''B'', 30.2), (''C'', 24.1)]). 0 \<le> v"
    by simp
  have pos: "sum_list (map snd [(''A'', 45.5 :: real), (''B'', 30.2), (''C'', 24.1)]) > 0" by simp
  have len: "length [(''A'', 45.5 :: real), (''B'', 30.2), (''C'', 24.1)] \<le> 45" by simp
  show ?thesis
    by (rule gradientDescentOptimization_valid_weights [OF dist keys proto nonneg pos len])
qed

text \<open>
  The claim as stated, for every input weight map, fails. The all-zero map of three assets
  comes back as three times 33.3, whose sum 99.9 is not within 0.01 of 100; the map
  A: 150, B: -50, which the optimizer does not validate, comes back as it is; sixty equal
  weights come back with the first weight at -0.3 (here with the turnover limit 0, so that
  the search makes no pass); three equal weights the first of which has the empty string
  as its id come back as 33.3 each; and the map of the single asset \<^verbatim>\<open>__proto__\<close> with the
  weight 100, as \<^verbatim>\<open>JSON.parse\<close> returns it, comes back as the empty map, whose sum is 0.
\<close>

theorem gradientDescentOptimization_invalid_weights:
  "success (gradientDescentOptimization (newPortfolioOptimizer defaultOptions)
                  (Some [(''A'', 0), (''B'', 0), (''C'', 0)]) ''sharpe'' (\<lambda>w. Returns None) None)
   \<and> \<not> isValidWeightAllocation
      (result_weights (gradientDescentOptimization (newPortfolioOptimizer defaultOptions)
                  (Some [(''A'', 0), (''B'', 0), (''C'', 0)]) ''sharpe'' (\<lambda>w. Returns None) None))
   \<and> success (gradientDescentOptimization (newPortfolioOptimizer defaultOptions)
                  (Some [(''A'', 150), (''B'', - 50)]) ''sharpe'' (\<lambda>w. Returns None) None)
   \<and> \<not> isValidWeightAllocation
      (result_weights (gradientDescentOptimization (newPortfolioOptimizer defaultOptions)
                  (Some [(''A'', 150), (''B'', - 50)]) ''sharpe'' (\<lambda>w. Returns None) None))
   \<and> success (gradientDescentOptimization (newPortfolioOptimizer defaultOptions)
                  (Some sixtyEqual) ''sharpe'' (\<lambda>w. Returns None) (Some 0))
   \<and> \<not> isValidWeightAllocation
      (result_weights (gradientDescentOptimization (newPortfolioOptimizer defaultOptions)
                  (Some sixtyEqual) ''sharpe'' (\<lambda>w. Returns None) (Some 0)))
   \<and> success (gradientDescentOptimization (newPortfolioOptimizer defaultOptions)
                  (Some [([], 1), (''B'', 1), (''C'', 1)]) ''sharpe'' (\<lambda>w. Returns None) None)
   \<and> \<not> isValidWeightAllocation
      (result_weights (gradientDescentOptimization (newPortfolioOptimizer defaultOptions)
                  (Some [([], 1), (''B'', 1), (''C'', 1)]) ''sharpe'' (\<lambda>w. Returns None) None))
   \<and> success (gradientDescentOptimization (newPortfolioOptimizer defaultOptions)
                  (Some [(''__proto__'', 100)]) ''sharpe'' (\<lambda>w. Returns None) None)
   \<and> \<not> isValidWeightAllocation
      (result_weights (gradientDescentOptimization (newPortfolioOptimizer defaultOptions)
                  (Some [(''__proto__'', 100)]) ''sharpe'' (\<lambda>w. Returns None) None))"
proof -
  have ok: "success (gradientDescentOptimization (newPortfolioOptimizer defaultOptions)
                  (Some ws) ''sharpe'' (\<lambda>w. Returns None) limit)" for ws limit
    by (simp add: gradientDescentOptimization_def Let_def success_def)
  have zero: "\<not> isValidWeightAllocation
      (result_weights (gradientDescentOptimization (newPortfolioOptimizer defaultOptions)
                  (Some [(''A'', 0), (''B'', 0), (''C'', 0)]) ''sharpe'' (\<lambda>w. Returns None) None))"
    by code_simp
  have negative: "\<not> isValidWeightAllocation
      (result_weights (gradientDescentOptimization (newPortfolioOptimizer defaultOptions)
                  (Some [(''A'', 150), (''B'', - 50)]) ''sharpe'' (\<lambda>w. Returns None) None))"
    by code_simp
  have sixty: "\<not> isValidWeightAllocation
      (result_weights (gradientDescentOptimization (newPortfolioOptimizer defaultOptions)
                  (Some sixtyEqual) ''sharpe'' (\<lambda>w. Returns None) (Some 0)))"
    by code_simp
  have unnamed: "\<not> isValidWeightAllocation
      (result_weights (gradientDescentOptimization (newPortfolioOptimizer defaultOptions)
                  (Some [([], 1), (''B'', 1), (''C'', 1)]) ''sharpe'' (\<lambda>w. Returns None) None))"
    by code_simp
  have prototype: "\<not> isValidWeightAllocation
      (result_weights (gradientDescentOptimization (newPortfolioOptimizer defaultOptions)
                  (Some [(''__proto__'', 100)]) ''sharpe'' (\<lambda>w. Returns None) None))"
    by code_simp
  show ?thesis
    by (intro conjI) (rule ok zero negative sixty unnamed prototype)+
qed

subsection \<open>A callback that throws\<close>

text \<open>
  C2, as amended. When the callback throws on a weight map, \<open>calculateObjectiveFunction\<close>
  catches the exception in its own handler and scores the map with a penalty of magnitude
  999. The optimizer therefore never sees the fault: for every callback and every weight map
  object it returns with \<^verbatim>\<open>success = true\<close>, and with a callback that throws on
  every call the initial and the final metric are that penalty, the improvement is 0 and the
  weights are the normalized input. No exception reaches the caller.
\<close>

theorem throwing_callback_scored_as_penalty:
  "(calculateMetrics weights = Throws \<longrightarrow>
      \<bar>calculateObjectiveFunction weights objective calculateMetrics\<bar> = 999)
   \<and> success (gradientDescentOptimization (newPortfolioOptimizer options) (Some ws) objective
                calculateMetrics turnoverLimit)
   \<and> (\<exists>p n. \<bar>p\<bar> = 999
          \<and> gradientDescentOptimization (newPortfolioOptimizer options) (Some ws) objective
              (\<lambda>w. Throws) turnoverLimit
            = Success (optimizer_normalizeWeights ws) p p n 0)"
proof (intro conjI impI)
  assume "calculateMetrics weights = Throws"
  then show "\<bar>calculateObjectiveFunction weights objective calculateMetrics\<bar> = 999"
    by (simp add: calculateObjectiveFunction_Throws)
next
  show "success (gradientDescentOptimization (newPortfolioOptimizer options) (Some ws) objective
                calculateMetrics turnoverLimit)"
    by (simp add: gradientDescentOptimization_def Let_def success_def)
next
  let ?opt = "newPortfolioOptimizer options"
  let ?limit = "(case turnoverLimit of None \<Rightarrow> 1 | Some limit \<Rightarrow> limit) :: real"
  let ?p = "if objective = ''risk'' then 999 else - 999 :: real"
  let ?cb = "\<lambda>w :: weightMap. Throws"
  have p: "calculateObjectiveFunction w objective ?cb = ?p" for w
    by (rule calculateObjectiveFunction_Throws) simp
  define t where "t = searchLoop \<lfloor>?limit / this_stepSize ?opt\<rfloor> (this_maxStagnation ?opt)
       (this_stepSize ?opt) ?limit objective ?cb
       \<lparr> currentWeights = ws, bestMetric = ?p, bestWeights = ws,
         totalChanges = assignedObject (map (\<lambda>(asset, w). (asset, 0)) ws), iteration = 0,
         stagnationCount = 0 \<rparr>"
  have res: "gradientDescentOptimization ?opt (Some ws) objective ?cb turnoverLimit
           = Success (optimizer_normalizeWeights (bestWeights t)) ?p (bestMetric t) (iteration t)
               (bestMetric t - ?p)"
    unfolding gradientDescentOptimization_def t_def p by (simp add: Let_def)
  have "penaltyInv ws ?p t"
    unfolding t_def
  proof (rule searchLoop_invariant [where P = "penaltyInv ws ?p"])
    show "penaltyInv ws ?p \<lparr> currentWeights = ws, bestMetric = ?p, bestWeights = ws,
         totalChanges = assignedObject (map (\<lambda>(asset, w). (asset, 0)) ws), iteration = 0,
         stagnationCount = 0 \<rparr>"
      by (simp add: penaltyInv_def)
  next
    fix u u'
    assume inv: "penaltyInv ws ?p u"
      and step: "searchStep (this_stepSize ?opt) ?limit objective ?cb u = Continue u'"
    from searchStep_Continue [OF step] inv show "penaltyInv ws ?p u'"
      unfolding penaltyInv_def p by auto
  qed
  then have "bestWeights t = ws" "bestMetric t = ?p" by (simp_all add: penaltyInv_def)
  then have "gradientDescentOptimization ?opt (Some ws) objective ?cb turnoverLimit
            = Success (optimizer_normalizeWeights ws) ?p ?p (iteration t) 0"
    unfolding res by simp
  moreover have "\<bar>?p\<bar> = 999" by simp
  ultimately show "\<exists>p n. \<bar>p\<bar> = 999
          \<and> gradientDescentOptimization ?opt (Some ws) objective ?cb turnoverLimit
            = Success (optimizer_normalizeWeights ws) p p n 0"
    by blast
qed

theorem throwing_callback_scored_as_penalty_witness:
  "\<bar>calculateObjectiveFunction [(''A'', 50), (''B'', 50)] ''sharpe'' (\<lambda>w. Throws)\<bar> = 999
   \<and> success (gradientDescentOptimization (newPortfolioOptimizer defaultOptions)
                (Some [(''A'', 50), (''B'', 50)]) ''sharpe'' (\<lambda>w. Throws) None)"
  using throwing_callback_scored_as_penalty
    [of "\<lambda>w. Throws" "[(''A'', 50), (''B'', 50)]" "''sharpe''" defaultOptions
        "[(''A'', 50), (''B'', 50)]" None]
  by simp

text \<open>
  The claim as stated fails: with a callback that always throws the result is a success,
  not a failure with an error field.
\<close>

theorem throwing_callback_reports_success:
  "gradientDescentOptimization (newPortfolioOptimizer defaultOptions)
     (Some [(''A'', 50), (''B'', 50)]) ''sharpe'' (\<lambda>w. Throws) None
   = Success [(''A'', 50), (''B'', 50)] (- 999) (- 999) 10 0"
  by code_simp

subsection \<open>Chained runs\<close>







end
